theory Spec2Isabelle
  imports Main "HOL-Library.Word"
begin

section \<open>Go primitives used by vdr-epg-tool.go\<close>

text \<open>
  Go strings are byte sequences; \<open>string\<close> (a list of 8-bit characters) models them.
  Go's \<open>int\<close> and \<open>int64\<close> are modelled as \<open>int\<close>; every place where the 64-bit
  range matters (\<open>strconv.Atoi\<close>, \<open>time.Time.Sub\<close>) has the bound written out.
\<close>

text \<open>How the process can stop early: \<open>l.Fatalln\<close>/\<open>l.Fatalf\<close> call \<open>os.Exit(1)\<close>; a slice
  expression with a bound beyond the length of the string is a run-time panic.\<close>

datatype fault = Fatal | Panic

definition thenf :: "fault + 'a \<Rightarrow> ('a \<Rightarrow> fault + 'b) \<Rightarrow> fault + 'b" where
  "thenf m f = (case m of Inl e \<Rightarrow> Inl e | Inr x \<Rightarrow> f x)"

text \<open>Integer \<open>/\<close> and \<open>%\<close> of Go truncate towards zero; \<open>div\<close> and \<open>mod\<close> of HOL round
  down, so the truncation is written out.\<close>

definition go_quot :: "int \<Rightarrow> int \<Rightarrow> int" where
  "go_quot a b = sgn a * sgn b * (\<bar>a\<bar> div \<bar>b\<bar>)"

definition go_rem :: "int \<Rightarrow> int \<Rightarrow> int" where
  "go_rem a b = a - go_quot a b * b"

definition LF :: char where
  "LF = CHR 0x0A"

definition CRLF :: string where
  "CRLF = [CHR 0x0D, LF]"

text \<open>\<open>s[lo:hi]\<close> on a string: panics unless \<open>lo \<le> hi \<le> len(s)\<close>.\<close>

definition go_slice :: "string \<Rightarrow> nat \<Rightarrow> nat \<Rightarrow> fault + string" where
  "go_slice s lo hi =
     (if lo \<le> hi \<and> hi \<le> length s then Inr (take (hi - lo) (drop lo s)) else Inl Panic)"

subsection \<open>strconv.Atoi and the verb \<open>%d\<close>\<close>

definition is_digit :: "char \<Rightarrow> bool" where
  "is_digit c = (48 \<le> (of_char c :: int) \<and> (of_char c :: int) \<le> 57)"

definition digits_val :: "string \<Rightarrow> int" where
  "digits_val s = foldl (\<lambda>n c. n * 10 + ((of_char c :: int) - 48)) 0 s"

fun strip_sign :: "string \<Rightarrow> bool \<times> string" where
  "strip_sign [] = (False, [])"
| "strip_sign (c # cs) =
     (if c = CHR ''-'' then (True, cs)
      else if c = CHR ''+'' then (False, cs)
      else (False, c # cs))"

text \<open>
  \<open>strconv.Atoi\<close> with the error result discarded, as every call in the program does
  (\<open>x, _ := strconv.Atoi(s)\<close>): an optional sign and at least one decimal digit; a
  syntax error yields 0 and a value outside the 64-bit range yields the nearest bound.
\<close>

definition max_int64 :: int where
  "max_int64 = 9223372036854775807"

definition min_int64 :: int where
  "min_int64 = - 9223372036854775808"

definition go_Atoi :: "string \<Rightarrow> int" where
  "go_Atoi s =
     (case strip_sign s of (neg, body) \<Rightarrow>
        if body = [] \<or> \<not> list_all is_digit body then 0
        else let n = digits_val body;
                 v = (if neg then - n else n)
             in max min_int64 (min max_int64 v))"

definition digit_char :: "int \<Rightarrow> char" where
  "digit_char n = ''0123456789'' ! nat n"

function show_dec :: "int \<Rightarrow> string" where
  "show_dec n = (if n < 10 then [digit_char n] else show_dec (n div 10) @ [digit_char (n mod 10)])"
  by pat_completeness auto
termination
  by (relation "measure nat") auto

declare show_dec.simps [simp del]

text \<open>\<open>fmt.Sprintf("%d", i)\<close> and \<open>strconv.FormatInt(i, 10)\<close>.\<close>

definition fmt_int :: "int \<Rightarrow> string" where
  "fmt_int i = (if i < 0 then CHR ''-'' # show_dec (- i) else show_dec i)"

section \<open>VDR types\<close>

record VDRChannel =
  Name :: string
  Aliases :: "string list"
  CallSign :: string
  Number :: string
  Frequency :: string
  Param :: string
  Source :: string
  Srate :: string
  VPID :: string
  APID :: string
  TPID :: string
  CondAccess :: string
  ServiceId :: string
  NetworkId :: string
  TransportId :: string
  RadioId :: string

section \<open>vdr_make_channel_id\<close>

text \<open>
  \<^verbatim>\<open>fq, _ := strconv.Atoi(c.Frequency)
  if c.Source == "A" || c.Source == "T" { fq /= 1000 }
  i = fmt.Sprintf("%s-%s-%d-%s", c.Source, c.NetworkId, fq, c.ServiceId)
  if c.TransportId != "0" || c.NetworkId != "0" {
      i = fmt.Sprintf("%s-%s-%s-%s", c.Source, c.NetworkId, c.TransportId, c.ServiceId)
  }\<close>
\<close>

definition vdr_make_channel_id :: "VDRChannel \<Rightarrow> string" where
  "vdr_make_channel_id c =
     (let fq0 = go_Atoi (Frequency c);
          fq = (if Source c = ''A'' \<or> Source c = ''T'' then go_quot fq0 1000 else fq0);
          i = Source c @ ''-'' @ NetworkId c @ ''-'' @ fmt_int fq @ ''-'' @ ServiceId c
      in if TransportId c \<noteq> ''0'' \<or> NetworkId c \<noteq> ''0''
         then Source c @ ''-'' @ NetworkId c @ ''-'' @ TransportId c @ ''-'' @ ServiceId c
         else i)"

section \<open>Lookup tables\<close>

text \<open>The map literals \<open>genres\<close> and \<open>ratings\<close>, entry by entry in the order of the source
  (a Go map literal cannot repeat a key, so the order does not matter).\<close>

definition genres :: "(string \<times> int) list" where
  "genres =
    [(''Movie/Drama'', 0x10),
     (''Action'', 0x10),
     (''Detective/Thriller'', 0x11),
     (''Adventure/Western/War'', 0x12),
     (''Science Fiction/Fantasy/Horror'', 0x13),
     (''Comedy'', 0x14),
     (''Soap/Melodrama/Folkloric'', 0x15),
     (''Romance'', 0x16),
     (''Serious/Classical/Religious/Historical Movie/Drama'', 0x17),
     (''Adult Movie/Drama'', 0x18),
     (''Adults only'', 0x18),
     (''Comedy-drama'', 0x14),
     (''Crime drama'', 0x10),
     (''Drama'', 0x10),
     (''Film'', 0x10),
     (''Science fiction'', 0x13),
     (''Soap'', 0x15),
     (''Standup'', 0x14),
     (''News/Current Affairs'', 0x20),
     (''News/Weather Report'', 0x21),
     (''News Magazine'', 0x22),
     (''Documentary'', 0x23),
     (''Discussion/Inverview/Debate'', 0x24),
     (''Weather'', 0x21),
     (''Show/Game Show'', 0x30),
     (''Game Show/Quiz/Contest'', 0x31),
     (''Variety Show'', 0x32),
     (''Talk Show'', 0x33),
     (''Sports'', 0x40),
     (''Action sports'', 0x40),
     (''Special Event'', 0x41),
     (''Sport Magazine'', 0x42),
     (''Football/Soccer'', 0x43),
     (''Tennis/Squash'', 0x44),
     (''Team Sports'', 0x45),
     (''Athletics'', 0x46),
     (''Motor Sport'', 0x47),
     (''Water Sport'', 0x48),
     (''Winter Sports'', 0x49),
     (''Equestrian'', 0x4A),
     (''Martial Sports'', 0x4B),
     (''Archery'', 0x46),
     (''Baseball'', 0x45),
     (''Basketball'', 0x45),
     (''Bicycle'', 0x40),
     (''Boxing'', 0x40),
     (''Billiards'', 0x40),
     (''Children's/Youth Programme'', 0x50),
     (''Pre-school Children's Programme'', 0x51),
     (''Entertainment Programme for 6 to 14'', 0x52),
     (''Entertainment Programme for 10 to 16'', 0x53),
     (''Informational/Educational/School Programme'', 0x54),
     (''Cartoons/Puppets'', 0x55),
     (''Paid Programming'', 0x54),
     (''Music/Ballet/Dance'', 0x60),
     (''Rock/Pop'', 0x61),
     (''Serious/Classical Music'', 0x62),
     (''Folk/Tradional Music'', 0x63),
     (''Jazz'', 0x64),
     (''Musical/Opera'', 0x65),
     (''Ballet'', 0x66),
     (''Arts/Culture'', 0x70),
     (''Performing Arts'', 0x71),
     (''Fine Arts'', 0x72),
     (''Religion'', 0x73),
     (''Religous'', 0x73),
     (''Popular Culture/Traditional Arts'', 0x74),
     (''Literature'', 0x75),
     (''Film/Cinema'', 0x76),
     (''Experimental Film/Video'', 0x77),
     (''Broadcasting/Press'', 0x78),
     (''New Media'', 0x79),
     (''Arts/Culture Magazine'', 0x7A),
     (''Fashion'', 0x7B),
     (''Arts/crafts'', 0x70),
     (''Social/Political/Economics'', 0x80),
     (''Magazine/Report/Documentary'', 0x81),
     (''Economics/Social Advisory'', 0x82),
     (''Remarkable People'', 0x83),
     (''Education/Science/Factual'', 0x90),
     (''Nature/Animals/Environment'', 0x91),
     (''Technology/Natural Sciences'', 0x92),
     (''Medicine/Physiology/Psychology'', 0x93),
     (''Foreign Countries/Expeditions'', 0x94),
     (''Social/Spiritual Sciences'', 0x95),
     (''Further Education'', 0x96),
     (''Languages'', 0x97),
     (''Leisure/Hobbies'', 0xA0),
     (''Tourism/Travel'', 0xA1),
     (''Handicraft'', 0xA2),
     (''Motoring'', 0xA3),
     (''Fitness & Health'', 0xA4),
     (''Cooking'', 0xA5),
     (''Advertisement/Shopping'', 0xA6),
     (''Gardening'', 0xA7),
     (''Aerobics'', 0xA4),
     (''Original Language'', 0xB1),
     (''Black & White'', 0xB2),
     (''Unpublished'', 0xB3),
     (''Live Broadcast'', 0xB4),
     (''Children'', 0x50),
     (''Animated'', 0x50),
     (''Crime/Mystery'', 0x11),
     (''Educational'', 0x90),
     (''Science/Nature'', 0x91),
     (''Adult'', 0x18),
     (''Music'', 0x60),
     (''News'', 0x20),
     (''Talk'', 0x33),
     (''Unknown'', 0x0),
     (''Anime'', 0x50),
     (''Animation'', 0x50)]"

definition ratings :: "(string \<times> int) list" where
  "ratings =
    [(''TV-Y'', 2),
     (''TV-Y7'', 7),
     (''TV-G'', 8),
     (''TV-PG'', 10),
     (''TV-14'', 14),
     (''TV-MA'', 18)]"

text \<open>Indexing a Go map with a missing key yields the zero value of the element type:
  \<open>genres[val]\<close> and \<open>ratings[p.Rating]\<close> are 0 and \<open>xmltvid2callsign[p.Channel]\<close> is the
  empty string when the key is absent.\<close>

definition genres_at :: "string \<Rightarrow> int" where
  "genres_at val = (case map_of genres val of None \<Rightarrow> 0 | Some code \<Rightarrow> code)"

definition ratings_at :: "string \<Rightarrow> int" where
  "ratings_at label = (case map_of ratings label of None \<Rightarrow> 0 | Some age \<Rightarrow> age)"

definition callsign_at :: "(string \<rightharpoonup> string) \<Rightarrow> string \<Rightarrow> string" where
  "callsign_at m k = (case m k of None \<Rightarrow> [] | Some cs \<Rightarrow> cs)"

section \<open>XMLTV and EPG records\<close>

record Channel =
  Id_attr :: string
  Names :: "string list"

record Programme =
  Start :: string
  Stop :: string
  PChannel :: string
  Title :: string
  SubTitle :: string
  Description :: string
  Credits :: string
  Date :: string
  Categories :: "string list"
  Rating :: string

record VDREPGEvent =
  CChannel :: string
  ChannelCallSign :: string
  EEventId :: "64 word"
  EEStartTime :: string
  EEStopTime :: string
  EEDuration :: string
  TTitle :: string
  SSubTitle :: string
  DDescription :: string
  GGenres :: "int list"
  RRating :: int

section \<open>The time package: \<open>time.Date\<close>, \<open>Unix\<close>, \<open>Sub\<close>, \<open>Seconds\<close>\<close>

text \<open>
  The program builds every instant with \<open>time.Date(y, m, d, h, mi, s, 0, time.UTC)\<close>, so an
  instant is a whole number of seconds and is represented by its Unix time. \<open>time.Date\<close>
  accepts values outside their usual ranges and normalises them: \<open>norm hi lo base\<close> carries
  \<open>lo\<close> into \<open>hi\<close> so that \<open>0 \<le> lo < base\<close>. The calendar is the proleptic Gregorian one.
\<close>

definition norm :: "int \<Rightarrow> int \<Rightarrow> int \<Rightarrow> int \<times> int" where
  "norm hi lo base = (hi + lo div base, lo mod base)"

definition isLeap :: "int \<Rightarrow> bool" where
  "isLeap year = (year mod 4 = 0 \<and> (year mod 100 \<noteq> 0 \<or> year mod 400 = 0))"

definition daysBefore :: "int list" where
  "daysBefore = [0, 31, 59, 90, 120, 151, 181, 212, 243, 273, 304, 334, 365]"

text \<open>Days from 1970-01-01 to January 1st of \<open>year\<close>.\<close>

definition leaps_upto :: "int \<Rightarrow> int" where
  "leaps_upto y = y div 4 - y div 100 + y div 400"

definition daysSinceEpoch :: "int \<Rightarrow> int" where
  "daysSinceEpoch year = 365 * (year - 1970) + (leaps_upto (year - 1) - leaps_upto 1969)"

definition go_Date_Unix :: "int \<Rightarrow> int \<Rightarrow> int \<Rightarrow> int \<Rightarrow> int \<Rightarrow> int \<Rightarrow> int" where
  "go_Date_Unix year month day hour minute sec =
     (case norm year (month - 1) 12 of (y, m) \<Rightarrow>
      case norm minute sec 60 of (mi1, s) \<Rightarrow>
      case norm hour mi1 60 of (h1, mi) \<Rightarrow>
      case norm day h1 24 of (dd, h) \<Rightarrow>
        let days = daysSinceEpoch y + daysBefore ! nat m
                   + (if isLeap y \<and> 2 \<le> m then 1 else 0) + (dd - 1)
        in days * 86400 + h * 3600 + mi * 60 + s)"

text \<open>
  \<open>t.Sub(u)\<close> is a \<open>Duration\<close>, a signed 64-bit count of nanoseconds: when \<open>t - u\<close> does not
  fit, \<open>Sub\<close> returns the minimum or the maximum duration. \<open>int(du.Seconds())\<close> is the
  duration in seconds truncated towards zero (the float \<open>Seconds()\<close> returns is below
  \<open>2^34\<close> in magnitude and the conversion drops its fraction).
\<close>

definition go_Sub :: "int \<Rightarrow> int \<Rightarrow> int" where
  "go_Sub t u =
     (let d = (t - u) * 1000000000
      in if d < min_int64 then min_int64 else if max_int64 < d then max_int64 else d)"

definition Seconds_int :: "int \<Rightarrow> int" where
  "Seconds_int du = go_quot du 1000000000"

section \<open>The SVDRP connection\<close>

text \<open>
  The TCP connection is its traffic: \<open>wire\<close> is what has happened on it so far, in order
  (\<open>Tx\<close> bytes written, \<open>Rx\<close> a reply line read and accepted for the given status code,
  \<open>Closed\<close> for \<open>conn.Close()\<close>), and \<open>inbox\<close> holds, for each call of
  \<open>svdrp_wait_for_reply\<close> still to come, the bytes its reader gets from the peer. An
  exhausted inbox stands for a read that fails with nothing received.

  The text that reaches \<open>fmt.Fprintf\<close> and \<open>fmt.Sprintf\<close> as a format string with no
  operands is expanded by the \<open>fmt\<close> package (it copies text without \<open>%\<close> unchanged). That
  expansion is the parameter \<open>F\<close> of every function below; nothing is assumed about it.
\<close>

datatype wire_ev = Tx string | Rx int | Closed

record conn =
  wire :: "wire_ev list"
  inbox :: "string list"

text \<open>
  \<^verbatim>\<open>func svdrp_write(conn net.Conn, format string, a ...interface{}) {
      cmd := fmt.Sprintf(format+"\r\n", a...)
      fmt.Fprintf(conn, cmd)
  }\<close>
  It is called in two ways: \<open>svdrp_write(conn, text)\<close>, where \<open>text\<close> itself is the format,
  and \<open>svdrp_write(conn, "%s", cmd)\<close> from \<open>svdrp_write_n_reply\<close>.
\<close>

definition svdrp_write :: "(string \<Rightarrow> string) \<Rightarrow> conn \<Rightarrow> string \<Rightarrow> conn" where
  "svdrp_write F c format = c\<lparr>wire := wire c @ [Tx (F (F (format @ CRLF)))]\<rparr>"

definition svdrp_write_s :: "(string \<Rightarrow> string) \<Rightarrow> conn \<Rightarrow> string \<Rightarrow> conn" where
  "svdrp_write_s F c cmd = c\<lparr>wire := wire c @ [Tx (F (cmd @ CRLF))]\<rparr>"

text \<open>
  \<open>bufio.Reader.ReadString('\n')\<close> on the bytes the reader gets: the data up to and
  including the first newline, and no error; or, when there is no newline before the
  read fails, the data read so far and an error. The flag is \<open>err == nil\<close>.
\<close>

definition ReadString :: "string \<Rightarrow> string \<times> bool" where
  "ReadString bytes =
     (if LF \<in> set bytes then (takeWhile (\<lambda>b. b \<noteq> LF) bytes @ [LF], True)
      else (bytes, False))"

text \<open>
  \<^verbatim>\<open>data, err := r.ReadString('\n')
  if err != nil { l.Fatalln("svdrp: read error", err) }
  status := data[0:3]
  replystr := strconv.FormatInt(int64(reply), 10)
  if err != nil || status != replystr { l.Fatalf(...) }\<close>
\<close>

definition svdrp_wait_for_reply :: "conn \<Rightarrow> int \<Rightarrow> fault + conn" where
  "svdrp_wait_for_reply c reply =
     (case inbox c of
        [] \<Rightarrow> Inl Fatal
      | bytes # rest \<Rightarrow>
          (case ReadString bytes of (data, ok) \<Rightarrow>
             if \<not> ok then Inl Fatal
             else thenf (go_slice data 0 3) (\<lambda>status.
                    if status \<noteq> fmt_int reply then Inl Fatal
                    else Inr (c\<lparr>wire := wire c @ [Rx reply], inbox := rest\<rparr>))))"

definition svdrp_write_n_reply :: "(string \<Rightarrow> string) \<Rightarrow> conn \<Rightarrow> string \<Rightarrow> int \<Rightarrow> fault + conn" where
  "svdrp_write_n_reply F c cmd reply = svdrp_wait_for_reply (svdrp_write_s F c cmd) reply"

definition VDR_SC_SERVICE_READY :: int where "VDR_SC_SERVICE_READY = 220"
definition VDR_SC_SERVICE_CLOSING :: int where "VDR_SC_SERVICE_CLOSING = 221"
definition VDR_SC_ACTION_OK :: int where "VDR_SC_ACTION_OK = 250"
definition VDR_SC_EPG_START_SENDING :: int where "VDR_SC_EPG_START_SENDING = 354"

section \<open>vdr_epg_load: the session\<close>

text \<open>The local variables of \<open>vdr_epg_load\<close> that live across iterations of its loop.\<close>

record session =
  sconn :: conn
  cur_channel :: string
  nchan :: "string \<rightharpoonup> int"

text \<open>\<open>nchan[k]++\<close> on a \<open>map[string]int\<close>: a missing key counts from 0.\<close>

definition incr :: "(string \<rightharpoonup> int) \<Rightarrow> string \<Rightarrow> (string \<rightharpoonup> int)" where
  "incr m k = m(k \<mapsto> (case m k of None \<Rightarrow> 0 | Some n \<Rightarrow> n) + 1)"

text \<open>
  The six slices of a timestamp, in the order of the source, then \<open>time.Date\<close>:
  \<^verbatim>\<open>d1, _ := strconv.Atoi(d[0:4]) ... d6, _ := strconv.Atoi(d[12:14])
  dts := time.Date(d1, time.Month(d2), d3, d4, d5, d6, 0, time.UTC)\<close>
\<close>

definition parse_stamp :: "string \<Rightarrow> fault + int" where
  "parse_stamp d =
     thenf (go_slice d 0 4) (\<lambda>s1.
     thenf (go_slice d 4 6) (\<lambda>s2.
     thenf (go_slice d 6 8) (\<lambda>s3.
     thenf (go_slice d 8 10) (\<lambda>s4.
     thenf (go_slice d 10 12) (\<lambda>s5.
     thenf (go_slice d 12 14) (\<lambda>s6.
       Inr (go_Date_Unix (go_Atoi s1) (go_Atoi s2) (go_Atoi s3)
                         (go_Atoi s4) (go_Atoi s5) (go_Atoi s6))))))))"

text \<open>\<open>eid := dts.Unix() / 60 % 0xffff\<close>\<close>

definition event_id :: "int \<Rightarrow> int" where
  "event_id unix = go_rem (go_quot unix 60) 0xffff"

text \<open>\<open>du := dte.Sub(dts)\<close> and then \<open>int(du.Seconds())\<close>.\<close>

definition event_duration :: "int \<Rightarrow> int \<Rightarrow> int" where
  "event_duration dts dte = Seconds_int (go_Sub dte dts)"

text \<open>\<open>for _, v := range e.GGenres { g += strconv.FormatInt(int64(v), 10) + " " }\<close>\<close>

definition genre_field :: "int list \<Rightarrow> string" where
  "genre_field gs = foldl (\<lambda>g v. g @ fmt_int v @ '' '') [] gs"

text \<open>\<open>fmt.Sprintf("E %d %d %d 0\r\n", eid, dts.Unix(), int(du.Seconds()))\<close>\<close>

definition event_header :: "int \<Rightarrow> int \<Rightarrow> string" where
  "event_header dts dte =
     ''E '' @ fmt_int (event_id dts) @ '' '' @ fmt_int dts @ '' ''
       @ fmt_int (event_duration dts dte) @ '' 0'' @ CRLF"

text \<open>The lines of one event, \<open>E\<close> to \<open>e\<close>, as they are appended to \<open>cmd\<close>.\<close>

definition event_lines :: "VDREPGEvent \<Rightarrow> int \<Rightarrow> int \<Rightarrow> string" where
  "event_lines e dts dte =
     event_header dts dte
     @ ''T '' @ TTitle e @ CRLF
     @ (if SSubTitle e \<noteq> [] then ''S '' @ SSubTitle e @ CRLF else [])
     @ ''D '' @ DDescription e @ CRLF
     @ ''G '' @ genre_field (GGenres e) @ CRLF
     @ ''R '' @ fmt_int (RRating e) @ CRLF
     @ ''e''"

text \<open>\<open>fmt.Sprintf("C %s %s\r\n", vdr_make_channel_id(channels[e.ChannelCallSign]), e.ChannelCallSign)\<close>\<close>

definition channel_header :: "VDRChannel \<Rightarrow> string \<Rightarrow> string" where
  "channel_header ch cs = ''C '' @ vdr_make_channel_id ch @ '' '' @ cs @ CRLF"

text \<open>
  \<^verbatim>\<open>svdrp_write(conn, "c")
  svdrp_write_n_reply(conn, ".", VDR_SC_ACTION_OK)\<close>
\<close>

definition close_block :: "(string \<Rightarrow> string) \<Rightarrow> conn \<Rightarrow> fault + conn" where
  "close_block F c = svdrp_write_n_reply F (svdrp_write F c ''c'') ''.'' VDR_SC_ACTION_OK"

text \<open>
  One iteration of the loop for a received event \<open>e\<close>:
  \<^verbatim>\<open>if _, fc := channels[e.ChannelCallSign]; fc == false { continue }
  cmd := ""
  if cur_channel != "" && cur_channel != e.ChannelCallSign {
      svdrp_write(conn, "c"); svdrp_write_n_reply(conn, ".", VDR_SC_ACTION_OK)
  }
  if cur_channel == "" || cur_channel != e.ChannelCallSign {
      svdrp_write_n_reply(conn, "PUTE", VDR_SC_EPG_START_SENDING)
      cmd += fmt.Sprintf("C %s %s\r\n", ...)
      cur_channel = e.ChannelCallSign
      nchan[cur_channel]++
  }
  ... the timestamps, the lines of the event ...
  svdrp_write(conn, cmd)
  nchan[cur_channel]++\<close>
\<close>

definition epg_event ::
  "(string \<Rightarrow> string) \<Rightarrow> (string \<rightharpoonup> VDRChannel) \<Rightarrow> session \<Rightarrow> VDREPGEvent \<Rightarrow> fault + session" where
  "epg_event F channels st e =
     (case channels (ChannelCallSign e) of
        None \<Rightarrow> Inr st
      | Some ch \<Rightarrow>
          thenf (if cur_channel st \<noteq> [] \<and> cur_channel st \<noteq> ChannelCallSign e
                 then close_block F (sconn st) else Inr (sconn st)) (\<lambda>c1.
          thenf (if cur_channel st = [] \<or> cur_channel st \<noteq> ChannelCallSign e
                 then thenf (svdrp_write_n_reply F c1 ''PUTE'' VDR_SC_EPG_START_SENDING) (\<lambda>c2.
                        Inr (c2, channel_header ch (ChannelCallSign e), ChannelCallSign e,
                             incr (nchan st) (ChannelCallSign e)))
                 else Inr (c1, [], cur_channel st, nchan st)) (\<lambda>(c2, cmd, cur, n).
          thenf (parse_stamp (EEStartTime e)) (\<lambda>dts.
          thenf (parse_stamp (EEStopTime e)) (\<lambda>dte.
            Inr \<lparr>sconn = svdrp_write F c2 (cmd @ event_lines e dts dte),
                 cur_channel = cur,
                 nchan = incr n cur\<rparr>)))))"

text \<open>The two conditionals at the head of the iteration on their own: what they leave
  in \<open>conn\<close>, \<open>cmd\<close>, \<open>cur_channel\<close> and \<open>nchan\<close> before the timestamps are sliced.\<close>

definition block_switch ::
  "(string \<Rightarrow> string) \<Rightarrow> VDRChannel \<Rightarrow> session \<Rightarrow> VDREPGEvent
     \<Rightarrow> fault + (conn \<times> string \<times> string \<times> (string \<rightharpoonup> int))" where
  "block_switch F ch st e =
     thenf (if cur_channel st \<noteq> [] \<and> cur_channel st \<noteq> ChannelCallSign e
            then close_block F (sconn st) else Inr (sconn st)) (\<lambda>c1.
       if cur_channel st = [] \<or> cur_channel st \<noteq> ChannelCallSign e
       then thenf (svdrp_write_n_reply F c1 ''PUTE'' VDR_SC_EPG_START_SENDING) (\<lambda>c2.
              Inr (c2, channel_header ch (ChannelCallSign e), ChannelCallSign e,
                   incr (nchan st) (ChannelCallSign e)))
       else Inr (c1, [], cur_channel st, nchan st))"

text \<open>The loop runs until the queue \<open>comm\<close> is closed; the events it receives until then
  are the list.\<close>

fun epg_loop ::
  "(string \<Rightarrow> string) \<Rightarrow> (string \<rightharpoonup> VDRChannel) \<Rightarrow> session \<Rightarrow> VDREPGEvent list \<Rightarrow> fault + session" where
  "epg_loop F channels st [] = Inr st"
| "epg_loop F channels st (e # es) = thenf (epg_event F channels st e) (\<lambda>st'. epg_loop F channels st' es)"

text \<open>
  Before the loop: connect, the greeting, \<open>CLRE\<close>.
  \<^verbatim>\<open>conn, cerr := net.Dial("tcp", vdrhost)
  if cerr != nil { l.Fatalln(...) }
  svdrp_wait_for_reply(conn, VDR_SC_SERVICE_READY)
  svdrp_write_n_reply(conn, "CLRE", VDR_SC_ACTION_OK)
  cur_channel := ""
  nchan := make(map[string]int)\<close>
\<close>

definition epg_start :: "(string \<Rightarrow> string) \<Rightarrow> bool \<Rightarrow> string list \<Rightarrow> fault + session" where
  "epg_start F dialled replies =
     (if \<not> dialled then Inl Fatal
      else thenf (svdrp_wait_for_reply \<lparr>wire = [], inbox = replies\<rparr> VDR_SC_SERVICE_READY) (\<lambda>c1.
           thenf (svdrp_write_n_reply F c1 ''CLRE'' VDR_SC_ACTION_OK) (\<lambda>c2.
             Inr \<lparr>sconn = c2, cur_channel = [], nchan = Map.empty\<rparr>)))"

text \<open>
  After the loop:
  \<^verbatim>\<open>svdrp_write(conn, "c")
  svdrp_write_n_reply(conn, ".", VDR_SC_ACTION_OK)
  svdrp_write_n_reply(conn, "QUIT", VDR_SC_SERVICE_CLOSING)
  ... the counters are logged ...
  conn.Close()
  netdone <- true\<close>
  The result is the traffic of the whole connection; a result at all means that
  \<open>netdone\<close> has been signalled.
\<close>

definition epg_finish :: "(string \<Rightarrow> string) \<Rightarrow> session \<Rightarrow> fault + session" where
  "epg_finish F st =
     thenf (close_block F (sconn st)) (\<lambda>c1.
     thenf (svdrp_write_n_reply F c1 ''QUIT'' VDR_SC_SERVICE_CLOSING) (\<lambda>c2.
       Inr (st\<lparr>sconn := c2\<lparr>wire := wire c2 @ [Closed]\<rparr>\<rparr>)))"

definition vdr_epg_load ::
  "(string \<Rightarrow> string) \<Rightarrow> (string \<rightharpoonup> VDRChannel) \<Rightarrow> bool \<Rightarrow> string list \<Rightarrow> VDREPGEvent list
     \<Rightarrow> fault + session" where
  "vdr_epg_load F channels dialled replies comm =
     thenf (epg_start F dialled replies) (\<lambda>st0.
     thenf (epg_loop F channels st0 comm) (\<lambda>st1.
       epg_finish F st1))"

section \<open>main: cross-reference resolution and event translation\<close>

text \<open>
  The variables the decoding loop of \<open>main\<close> works on: the package-level map \<open>channels\<close>
  (set once, by \<open>load_vdr_channels\<close>, before the loop) and the local map
  \<open>xmltvid2callsign\<close>.
\<close>

record globals =
  channels :: "string \<rightharpoonup> VDRChannel"
  xmltvid2callsign :: "string \<rightharpoonup> string"

text \<open>
  \<^verbatim>\<open>for _, name := range ch.Names {
      if el, found := channels[name]; found == true {
          el.Aliases = make([]string, len(ch.Names))
          copy(el.Aliases, ch.Names)
          xmltvid2callsign[ch.Id] = el.CallSign
          break
      }
  }\<close>
  \<open>channels\<close> is a \<open>map[string]VDRChannel\<close>: \<open>el\<close> is a copy of the stored struct, and the
  loop never stores it back.
\<close>

fun resolve_names :: "globals \<Rightarrow> Channel \<Rightarrow> string list \<Rightarrow> globals" where
  "resolve_names g ch [] = g"
| "resolve_names g ch (name # names) =
     (case channels g name of
        Some found \<Rightarrow>
          (let el = found\<lparr>Aliases := Names ch\<rparr>
           in g\<lparr>xmltvid2callsign := (xmltvid2callsign g)(Id_attr ch \<mapsto> CallSign el)\<rparr>)
      | None \<Rightarrow> resolve_names g ch names)"

definition resolve_channel :: "globals \<Rightarrow> Channel \<Rightarrow> globals" where
  "resolve_channel g ch = resolve_names g ch (Names ch)"

text \<open>
  \<^verbatim>\<open>var ev VDREPGEvent = VDREPGEvent{
      CChannel: p.Channel, ChannelCallSign: xmltvid2callsign[p.Channel],
      EEStartTime: p.Start, EEStopTime: p.Stop, EEDuration: p.Stop,
      TTitle: p.Title, SSubTitle: p.SubTitle, DDescription: p.Description,
      RRating: ratings[p.Rating],
  }
  for _, val := range p.Categories {
      ev.GGenres = append(ev.GGenres, genres[val])
  }\<close>
\<close>

definition programme_event :: "(string \<rightharpoonup> string) \<Rightarrow> Programme \<Rightarrow> VDREPGEvent" where
  "programme_event x2c p =
     (let ev = \<lparr>CChannel = PChannel p,
                ChannelCallSign = callsign_at x2c (PChannel p),
                EEventId = 0,
                EEStartTime = Start p,
                EEStopTime = Stop p,
                EEDuration = Stop p,
                TTitle = Title p,
                SSubTitle = SubTitle p,
                DDescription = Description p,
                GGenres = [],
                RRating = ratings_at (Rating p)\<rparr>
      in foldl (\<lambda>ev val. ev\<lparr>GGenres := GGenres ev @ [genres_at val]\<rparr>) ev (Categories p))"

section \<open>The pipeline: producer and consumer around the queue\<close>

text \<open>
  \<open>main\<close> decodes the document element by element and sends one event per
  \<open>programme\<close> element on \<open>comm\<close>, a channel with a buffer of one; the goroutine
  \<open>vdr_epg_load\<close> receives from it. A state of the whole process:
\<close>

datatype element = ChannelEl Channel | ProgrammeEl Programme

datatype consumer = Connecting | Looping session | Done session | Aborted fault

record world =
  glob :: globals
  input :: "element list"
  comm :: "VDREPGEvent list"
  comm_closed :: bool
  cons :: consumer

definition consumer_of :: "(session \<Rightarrow> consumer) \<Rightarrow> fault + session \<Rightarrow> consumer" where
  "consumer_of k r = (case r of Inl f \<Rightarrow> Aborted f | Inr s \<Rightarrow> k s)"

definition aborted :: "world \<Rightarrow> bool" where
  "aborted w = (case cons w of Aborted f \<Rightarrow> True | _ \<Rightarrow> False)"

text \<open>One step of \<open>main\<close>: the next element, or \<open>close(comm)\<close> at the end of the
  document. A send on the full queue blocks.\<close>

definition prod_step :: "world \<Rightarrow> world option" where
  "prod_step w =
     (if aborted w then None
      else case input w of
        ChannelEl ch # rest \<Rightarrow> Some (w\<lparr>glob := resolve_channel (glob w) ch, input := rest\<rparr>)
      | ProgrammeEl p # rest \<Rightarrow>
          if length (comm w) < 1
          then Some (w\<lparr>input := rest,
                       comm := comm w @ [programme_event (xmltvid2callsign (glob w)) p]\<rparr>)
          else None
      | [] \<Rightarrow> if comm_closed w then None else Some (w\<lparr>comm_closed := True\<rparr>))"

text \<open>One step of \<open>vdr_epg_load\<close>: the start, one iteration of its loop, or the end.
  A receive on the empty open queue blocks.\<close>

definition cons_step :: "(string \<Rightarrow> string) \<Rightarrow> bool \<Rightarrow> string list \<Rightarrow> world \<Rightarrow> world option" where
  "cons_step F dialled replies w =
     (case cons w of
        Connecting \<Rightarrow> Some (w\<lparr>cons := consumer_of Looping (epg_start F dialled replies)\<rparr>)
      | Looping s \<Rightarrow>
          (case comm w of
             e # q \<Rightarrow> Some (w\<lparr>comm := q,
                              cons := consumer_of Looping (epg_event F (channels (glob w)) s e)\<rparr>)
           | [] \<Rightarrow> if comm_closed w
                   then Some (w\<lparr>cons := consumer_of Done (epg_finish F s)\<rparr>)
                   else None)
      | Done s \<Rightarrow> None
      | Aborted f \<Rightarrow> None)"

definition step :: "(string \<Rightarrow> string) \<Rightarrow> bool \<Rightarrow> string list \<Rightarrow> world \<Rightarrow> world \<Rightarrow> bool" where
  "step F dialled replies w w' =
     (prod_step w = Some w' \<or> cons_step F dialled replies w = Some w')"

text \<open>The process as \<open>main\<close> starts it: the directory loaded, nothing decoded yet.\<close>

definition init_world :: "(string \<rightharpoonup> VDRChannel) \<Rightarrow> element list \<Rightarrow> world" where
  "init_world dir doc =
     \<lparr>glob = \<lparr>channels = dir, xmltvid2callsign = Map.empty\<rparr>,
      input = doc, comm = [], comm_closed = False, cons = Connecting\<rparr>"

section \<open>What the specification says, where it differs from the program\<close>

text \<open>The event identifier as the specification states it.\<close>

definition spec_EventId :: "int \<Rightarrow> int" where
  "spec_EventId startEpochSeconds = (startEpochSeconds div 60) mod 65536"

text \<open>The genre list as the specification states it: a category without a table entry
  contributes nothing.\<close>

definition spec_genre_codes :: "string list \<Rightarrow> int list" where
  "spec_genre_codes cats =
     concat (map (\<lambda>c. case map_of genres c of None \<Rightarrow> [] | Some code \<Rightarrow> [code]) cats)"

text \<open>The number of channel-open handshakes (accepted \<open>354\<close> replies) and of close
  sequences (the line \<open>c\<close> written) in a stretch of traffic.\<close>

definition opens :: "wire_ev list \<Rightarrow> nat" where
  "opens w = length (filter (\<lambda>x. x = Rx VDR_SC_EPG_START_SENDING) w)"

section \<open>Predicates for the bounds of the slices\<close>

text \<open>Every reply line that will still be read has at least three bytes, its newline
  included.\<close>

definition line_long :: "string \<Rightarrow> bool" where
  "line_long bytes = (snd (ReadString bytes) \<longrightarrow> 3 \<le> length (fst (ReadString bytes)))"

definition replies_long :: "conn \<Rightarrow> bool" where
  "replies_long c = (\<forall>bytes \<in> set (inbox c). line_long bytes)"

text \<open>A result that is not a panic, and satisfies \<open>P\<close> when it is a value.\<close>

definition no_panic :: "('a \<Rightarrow> bool) \<Rightarrow> fault + 'a \<Rightarrow> bool" where
  "no_panic P r = (case r of Inl f \<Rightarrow> f \<noteq> Panic | Inr x \<Rightarrow> P x)"

section \<open>Sample data\<close>

text \<open>A directory with one channel, a document for it, sessions in the states the
  theorems below are tried on, and the replies of a peer.\<close>

definition sample_channel :: VDRChannel where
  "sample_channel =
     \<lparr>Name = ''ABC'', Aliases = [], CallSign = ''WCVB'', Number = [], Frequency = ''474000'',
      Param = ''M10'', Source = ''T'', Srate = ''0'', VPID = ''49=2'', APID = ''0'', TPID = ''0'',
      CondAccess = ''0'', ServiceId = ''3'', NetworkId = ''0'', TransportId = ''0'',
      RadioId = ''0''\<rparr>"

definition sample_dir :: "string \<rightharpoonup> VDRChannel" where
  "sample_dir = [''WCVB'' \<mapsto> sample_channel]"

definition sample_event :: VDREPGEvent where
  "sample_event =
     \<lparr>CChannel = ''I1'', ChannelCallSign = ''WCVB'', EEventId = 0,
      EEStartTime = ''20130101000000 +0000'', EEStopTime = ''20130101003000 +0000'',
      EEDuration = ''20130101003000 +0000'', TTitle = ''News'', SSubTitle = [],
      DDescription = ''Local news'', GGenres = [32], RRating = 8\<rparr>"

definition sample_xml_channel :: Channel where
  "sample_xml_channel = \<lparr>Id_attr = ''I1'', Names = [''5 WCVB'', ''WCVB'', ''ABC'']\<rparr>"

definition sample_programme :: Programme where
  "sample_programme =
     \<lparr>Start = ''20130101000000 +0000'', Stop = ''20130101003000 +0000'', PChannel = ''I9'',
      Title = ''News'', SubTitle = [], Description = ''Local news'', Credits = [], Date = [],
      Categories = [''News'', ''Sitcom''], Rating = ''TV-G''\<rparr>"

definition sample_open :: session where
  "sample_open = \<lparr>sconn = \<lparr>wire = [], inbox = []\<rparr>, cur_channel = ''WCVB'', nchan = [''WCVB'' \<mapsto> 1]\<rparr>"

definition sample_after :: session where
  "sample_after =
     \<lparr>sconn = \<lparr>wire = [Tx (event_lines sample_event 1356998400 1357000200 @ CRLF)], inbox = []\<rparr>,
      cur_channel = ''WCVB'', nchan = [''WCVB'' \<mapsto> 2]\<rparr>"

definition sample_backwards :: VDREPGEvent where
  "sample_backwards =
     sample_event\<lparr>EEStartTime := ''20130101003000'', EEStopTime := ''20130101000000''\<rparr>"

definition sample_after_backwards :: session where
  "sample_after_backwards =
     \<lparr>sconn = \<lparr>wire = [Tx (event_lines sample_backwards 1357000200 1356998400 @ CRLF)], inbox = []\<rparr>,
      cur_channel = ''WCVB'', nchan = [''WCVB'' \<mapsto> 2]\<rparr>"

definition sample_globals :: globals where
  "sample_globals = \<lparr>channels = sample_dir, xmltvid2callsign = Map.empty\<rparr>"

definition sample_replies_idle :: "string list" where
  "sample_replies_idle =
     [''220 vdr SVDRP ready'' @ CRLF, ''250 EPG data cleared'' @ CRLF,
      ''250 EPG data processed'' @ CRLF, ''221 vdr closing connection'' @ CRLF]"

definition sample_doc :: "element list" where
  "sample_doc = [ChannelEl sample_xml_channel, ProgrammeEl sample_programme]"

definition sample_world1 :: world where
  "sample_world1 =
     \<lparr>glob = \<lparr>channels = sample_dir, xmltvid2callsign = [''I1'' \<mapsto> ''WCVB'']\<rparr>,
      input = [ProgrammeEl sample_programme], comm = [], comm_closed = False,
      cons = Connecting\<rparr>"

definition sample_world2 :: world where
  "sample_world2 =
     sample_world1\<lparr>input := [],
       comm := [programme_event (xmltvid2callsign (glob sample_world1)) sample_programme]\<rparr>"

definition sample_short :: VDREPGEvent where
  "sample_short = sample_event\<lparr>EEStopTime := ''2013-01-01''\<rparr>"

definition sample_replies_run :: "string list" where
  "sample_replies_run =
     [''220 vdr SVDRP ready'' @ CRLF, ''250 EPG data cleared'' @ CRLF,
      ''354 Enter EPG data, end with \".\" on a line by itself'' @ CRLF,
      ''250 EPG data processed'' @ CRLF, ''221 vdr closing connection'' @ CRLF]"

definition anon_dir :: "string \<rightharpoonup> VDRChannel" where
  "anon_dir = [[] \<mapsto> sample_channel, ''WCVB'' \<mapsto> sample_channel]"

definition anon_event :: VDREPGEvent where
  "anon_event = sample_event\<lparr>ChannelCallSign := []\<rparr>"

definition anon_start :: session where
  "anon_start =
     \<lparr>sconn = \<lparr>wire = [],
               inbox = [''354 Enter EPG data'' @ CRLF, ''354 Enter EPG data'' @ CRLF,
                        ''354 Enter EPG data'' @ CRLF]\<rparr>,
      cur_channel = [], nchan = Map.empty\<rparr>"

definition sample_closed :: session where
  "sample_closed =
     \<lparr>sconn = \<lparr>wire = [], inbox = [''354 Enter EPG data'' @ CRLF]\<rparr>,
      cur_channel = [], nchan = Map.empty\<rparr>"

definition sample_other :: session where
  "sample_other =
     \<lparr>sconn = \<lparr>wire = [], inbox = [''250 EPG data processed'' @ CRLF, ''354 Enter EPG data'' @ CRLF]\<rparr>,
      cur_channel = ''WGBH'', nchan = [''WGBH'' \<mapsto> 2]\<rparr>"

definition sample_opened :: session where
  "sample_opened =
     \<lparr>sconn = \<lparr>wire = [Tx (''PUTE'' @ CRLF), Rx 354,
                        Tx (channel_header sample_channel ''WCVB''
                            @ event_lines sample_event 1356998400 1357000200 @ CRLF)],
               inbox = []\<rparr>,
      cur_channel = ''WCVB'', nchan = [''WCVB'' \<mapsto> 2]\<rparr>"

definition sample_opened2 :: session where
  "sample_opened2 =
     \<lparr>sconn = \<lparr>wire = [Tx (''PUTE'' @ CRLF), Rx 354,
                        Tx (channel_header sample_channel ''WCVB''
                            @ event_lines sample_event 1356998400 1357000200 @ CRLF),
                        Tx (event_lines sample_event 1356998400 1357000200 @ CRLF)],
               inbox = []\<rparr>,
      cur_channel = ''WCVB'', nchan = [''WCVB'' \<mapsto> 3]\<rparr>"

definition sample_switched :: session where
  "sample_switched =
     \<lparr>sconn = \<lparr>wire = [Tx (''c'' @ CRLF), Tx (''.'' @ CRLF), Rx 250,
                        Tx (''PUTE'' @ CRLF), Rx 354,
                        Tx (channel_header sample_channel ''WCVB''
                            @ event_lines sample_event 1356998400 1357000200 @ CRLF)],
               inbox = []\<rparr>,
      cur_channel = ''WCVB'', nchan = [''WGBH'' \<mapsto> 2, ''WCVB'' \<mapsto> 2]\<rparr>"

section \<open>Facts about the primitives\<close>

lemma thenf_Inl [simp]: "thenf (Inl e) f = Inl e"
  by (simp add: thenf_def)

lemma thenf_Inr [simp]: "thenf (Inr x) f = f x"
  by (simp add: thenf_def)

lemma thenf_eq_Inr: "thenf m f = Inr y \<longleftrightarrow> (\<exists>x. m = Inr x \<and> f x = Inr y)"
  by (cases m) simp_all

lemma go_quot_nonneg: "0 \<le> a \<Longrightarrow> 0 < b \<Longrightarrow> go_quot a b = a div b"
  by (cases "a = 0") (simp_all add: go_quot_def sgn_if)

lemma go_rem_nonneg: "0 \<le> a \<Longrightarrow> 0 < b \<Longrightarrow> go_rem a b = a mod b"
  by (simp add: go_rem_def go_quot_nonneg minus_div_mult_eq_mod)

lemma go_quot_mult_cancel: "0 < b \<Longrightarrow> go_quot (d * b) b = d"
  by (simp add: go_quot_def abs_mult sgn_mult mult_sgn_abs)

lemma event_id_nonneg:
  assumes "0 \<le> u"
  shows "event_id u = (u div 60) mod 65535" and "0 \<le> event_id u" and "event_id u \<le> 65534"
proof -
  have q: "0 \<le> u div 60" using assms by (simp add: pos_imp_zdiv_nonneg_iff)
  show e: "event_id u = (u div 60) mod 65535"
    using assms q by (simp add: event_id_def go_quot_nonneg go_rem_nonneg)
  show "0 \<le> event_id u" unfolding e by simp
  have "(u div 60) mod 65535 < 65535" by simp
  then show "event_id u \<le> 65534" unfolding e by linarith
qed

lemma below_min: "((d::int) * 1000000000 < - 9223372036854775808) = (d < - 9223372036)"
proof
  assume a: "d * 1000000000 < - 9223372036854775808"
  show "d < - 9223372036"
  proof (rule ccontr)
    assume "\<not> d < - 9223372036"
    then have "- 9223372036 \<le> d" by simp
    then have "- 9223372036 * 1000000000 \<le> d * 1000000000" by (rule mult_right_mono) simp
    with a show False by simp
  qed
next
  assume "d < - 9223372036"
  then have "d \<le> - 9223372037" by simp
  then have "d * 1000000000 \<le> - 9223372037 * 1000000000" by (rule mult_right_mono) simp
  then show "d * 1000000000 < - 9223372036854775808" by simp
qed

lemma above_max: "(9223372036854775807 < (d::int) * 1000000000) = (9223372036 < d)"
proof
  assume a: "9223372036854775807 < d * 1000000000"
  show "9223372036 < d"
  proof (rule ccontr)
    assume "\<not> 9223372036 < d"
    then have "d \<le> 9223372036" by simp
    then have "d * 1000000000 \<le> 9223372036 * 1000000000" by (rule mult_right_mono) simp
    with a show False by simp
  qed
next
  assume "9223372036 < d"
  then have "9223372037 \<le> d" by simp
  then have "9223372037 * 1000000000 \<le> d * 1000000000" by (rule mult_right_mono) simp
  then show "9223372036854775807 < d * 1000000000" by simp
qed

lemma event_duration_clamp:
  "event_duration dts dte =
     (if dte - dts < - 9223372036 then - 9223372036
      else if 9223372036 < dte - dts then 9223372036
      else dte - dts)"
proof -
  define d where "d = dte - dts"
  have lo: "go_quot (- 9223372036854775808) 1000000000 = - 9223372036"
    by (simp add: go_quot_def)
  have hi: "go_quot 9223372036854775807 1000000000 = 9223372036"
    by (simp add: go_quot_def)
  have mid: "go_quot (d * 1000000000) 1000000000 = d"
    by (rule go_quot_mult_cancel) simp
  have "Seconds_int (go_Sub dte dts) =
          (if d < - 9223372036 then - 9223372036 else if 9223372036 < d then 9223372036 else d)"
    unfolding go_Sub_def Seconds_int_def Let_def min_int64_def max_int64_def
      d_def [symmetric] below_min above_max
    using lo hi mid by simp
  then show ?thesis
    unfolding event_duration_def d_def .
qed

lemma go_Atoi_474000: "go_Atoi ''474000'' = 474000"
  by (simp add: go_Atoi_def is_digit_def digits_val_def max_int64_def min_int64_def)

lemma fmt_int_474: "fmt_int 474 = ''474''"
  by (simp add: fmt_int_def show_dec.simps digit_char_def)

lemma parse_sample_start: "parse_stamp ''20130101000000 +0000'' = Inr 1356998400"
  by code_simp

lemma parse_sample_stop: "parse_stamp ''20130101003000 +0000'' = Inr 1357000200"
  by code_simp

lemma parse_2013: "parse_stamp ''20130101000000'' = Inr 1356998400"
  by code_simp

lemma parse_2013_0030: "parse_stamp ''20130101003000'' = Inr 1357000200"
  by code_simp

section \<open>One iteration of the session loop\<close>

lemma epg_event_accepted:
  assumes "dir (ChannelCallSign e) = Some ch"
    and "epg_event F dir st e = Inr st'"
  shows "\<exists>dts dte c2 cmd.
      parse_stamp (EEStartTime e) = Inr dts \<and> parse_stamp (EEStopTime e) = Inr dte
      \<and> (cmd = [] \<or> cmd = channel_header ch (ChannelCallSign e))
      \<and> sconn st' = svdrp_write F c2 (cmd @ event_lines e dts dte)"
  using assms
  by (fastforce simp: epg_event_def thenf_eq_Inr split: if_splits prod.splits)

lemma sample_step: "epg_event (\<lambda>s. s) sample_dir sample_open sample_event = Inr sample_after"
  by (simp add: epg_event_def sample_dir_def sample_open_def sample_event_def sample_after_def
      parse_sample_start parse_sample_stop svdrp_write_def incr_def)

lemma sample_step_backwards:
  "epg_event (\<lambda>s. s) sample_dir sample_open sample_backwards = Inr sample_after_backwards"
  by (simp add: epg_event_def sample_dir_def sample_open_def sample_event_def sample_backwards_def
      sample_after_backwards_def parse_2013 parse_2013_0030 svdrp_write_def incr_def)

section \<open>Facts about the translation\<close>

lemma genres_loop:
  "GGenres (foldl (\<lambda>ev val. ev\<lparr>GGenres := GGenres ev @ [genres_at val]\<rparr>) ev cats)
     = GGenres ev @ map genres_at cats"
  by (induction cats arbitrary: ev) simp_all

lemma callsign_loop:
  "ChannelCallSign (foldl (\<lambda>ev val. ev\<lparr>GGenres := GGenres ev @ [genres_at val]\<rparr>) ev cats)
     = ChannelCallSign ev"
  by (induction cats arbitrary: ev) simp_all

lemma programme_event_genres: "GGenres (programme_event x2c p) = map genres_at (Categories p)"
  by (simp add: programme_event_def Let_def genres_loop)

lemma programme_event_callsign:
  "ChannelCallSign (programme_event x2c p) = callsign_at x2c (PChannel p)"
  by (simp add: programme_event_def Let_def callsign_loop)

lemma genres_Sitcom: "map_of genres ''Sitcom'' = None"
  by code_simp

lemma genres_News: "map_of genres ''News'' = Some 32"
  by code_simp

lemma genres_loop_record:
  "foldl (\<lambda>ev val. ev\<lparr>GGenres := GGenres ev @ [genres_at val]\<rparr>) ev cats
     = ev\<lparr>GGenres := GGenres ev @ map genres_at cats\<rparr>"
  by (induction cats arbitrary: ev) simp_all

lemma programme_event_fields:
  "programme_event x2c p =
     \<lparr>CChannel = PChannel p, ChannelCallSign = callsign_at x2c (PChannel p), EEventId = 0,
      EEStartTime = Start p, EEStopTime = Stop p, EEDuration = Stop p, TTitle = Title p,
      SSubTitle = SubTitle p, DDescription = Description p,
      GGenres = map genres_at (Categories p), RRating = ratings_at (Rating p)\<rparr>"
  by (simp add: programme_event_def Let_def genres_loop_record)

lemma genres_at_News: "genres_at ''News'' = 32"
  by (simp add: genres_at_def genres_News)

lemma genres_at_Sitcom: "genres_at ''Sitcom'' = 0"
  by (simp add: genres_at_def genres_Sitcom)

lemma ratings_at_TV_G: "ratings_at ''TV-G'' = 8"
  by (simp add: ratings_at_def ratings_def)

section \<open>Facts about the pipeline\<close>

lemma resolve_names_channels: "channels (resolve_names g ch names) = channels g"
  by (induction names) (simp_all add: Let_def split: option.splits)

lemma resolve_channel_channels: "channels (resolve_channel g ch) = channels g"
  by (simp add: resolve_channel_def resolve_names_channels)

lemma resolve_names_first_match:
  assumes "\<forall>n \<in> set pre. channels g n = None" and "channels g name = Some el"
  shows "xmltvid2callsign (resolve_names g ch (pre @ name # post))
           = (xmltvid2callsign g)(Id_attr ch \<mapsto> CallSign el)"
  using assms by (induction pre) (simp_all add: Let_def)

lemma prod_step_channels:
  "prod_step w = Some w' \<Longrightarrow> channels (glob w') = channels (glob w)"
  by (auto simp: prod_step_def resolve_channel_channels
      split: if_splits list.splits element.splits)

lemma cons_step_channels:
  "cons_step F dialled replies w = Some w' \<Longrightarrow> channels (glob w') = channels (glob w)"
  by (auto simp: cons_step_def split: consumer.splits list.splits if_splits)

lemma step_channels:
  "step F dialled replies w w' \<Longrightarrow> channels (glob w') = channels (glob w)"
  by (auto simp: step_def dest: prod_step_channels cons_step_channels)

lemma steps_channels:
  "rtranclp (step F dialled replies) w w' \<Longrightarrow> channels (glob w') = channels (glob w)"
  by (induction rule: rtranclp_induct) (simp_all add: step_channels)

lemma sample_prod_step1: "prod_step (init_world sample_dir sample_doc) = Some sample_world1"
  by (simp add: prod_step_def init_world_def sample_doc_def sample_world1_def aborted_def
      resolve_channel_def sample_xml_channel_def sample_dir_def sample_channel_def Let_def)

section \<open>Facts about the slices\<close>

lemma no_panic_thenf:
  assumes "no_panic P m" and "\<And>x. P x \<Longrightarrow> no_panic Q (f x)"
  shows "no_panic Q (thenf m f)"
  using assms by (cases m) (simp_all add: no_panic_def)

lemma no_panic_Inr [simp]: "no_panic P (Inr x) = P x"
  by (simp add: no_panic_def)

lemma no_panic_Fatal [simp]: "no_panic P (Inl Fatal)"
  by (simp add: no_panic_def)

lemma no_panic_not_Panic: "no_panic P r \<Longrightarrow> r \<noteq> Inl Panic"
  by (auto simp: no_panic_def)

lemma parse_stamp_short: "length d < 14 \<Longrightarrow> parse_stamp d = Inl Panic"
  by (simp add: parse_stamp_def go_slice_def)

lemma parse_stamp_long: "14 \<le> length d \<Longrightarrow> \<exists>u. parse_stamp d = Inr u"
  by (simp add: parse_stamp_def go_slice_def)

lemma parse_stamp_Panic_iff: "parse_stamp d = Inl Panic \<longleftrightarrow> length d < 14"
proof
  assume p: "parse_stamp d = Inl Panic"
  show "length d < 14"
  proof (rule ccontr)
    assume "\<not> length d < 14"
    then have "14 \<le> length d" by simp
    from parse_stamp_long [OF this] p show False by auto
  qed
qed (rule parse_stamp_short)

lemma wait_Panic_iff:
  "inbox c = bytes # rest \<Longrightarrow> ReadString bytes = (data, True) \<Longrightarrow>
     svdrp_wait_for_reply c reply = Inl Panic \<longleftrightarrow> length data < 3"
  by (simp add: svdrp_wait_for_reply_def go_slice_def)

lemma wait_read_error:
  "inbox c = bytes # rest \<Longrightarrow> ReadString bytes = (data, False) \<Longrightarrow>
     svdrp_wait_for_reply c reply = Inl Fatal"
  by (simp add: svdrp_wait_for_reply_def)

lemma wait_no_panic:
  "replies_long c \<Longrightarrow> no_panic replies_long (svdrp_wait_for_reply c reply)"
  by (cases "inbox c")
    (auto simp: svdrp_wait_for_reply_def go_slice_def replies_long_def line_long_def
      split: prod.splits)

lemma replies_long_write [simp]: "replies_long (svdrp_write F c x) = replies_long c"
  by (simp add: svdrp_write_def replies_long_def)

lemma replies_long_write_s [simp]: "replies_long (svdrp_write_s F c x) = replies_long c"
  by (simp add: svdrp_write_s_def replies_long_def)

lemma write_n_reply_no_panic:
  "replies_long c \<Longrightarrow> no_panic replies_long (svdrp_write_n_reply F c cmd reply)"
  by (simp add: svdrp_write_n_reply_def wait_no_panic)

lemma close_block_no_panic:
  "replies_long c \<Longrightarrow> no_panic replies_long (close_block F c)"
  by (simp add: close_block_def write_n_reply_no_panic)

lemma thenf_assoc: "thenf (thenf m f) g = thenf m (\<lambda>x. thenf (f x) g)"
  by (cases m) simp_all

lemma epg_event_via_switch:
  "dir (ChannelCallSign e) = Some ch \<Longrightarrow>
     epg_event F dir st e =
       thenf (block_switch F ch st e) (\<lambda>(c2, cmd, cur, n).
       thenf (parse_stamp (EEStartTime e)) (\<lambda>dts.
       thenf (parse_stamp (EEStopTime e)) (\<lambda>dte.
         Inr \<lparr>sconn = svdrp_write F c2 (cmd @ event_lines e dts dte),
              cur_channel = cur, nchan = incr n cur\<rparr>)))"
  by (simp add: epg_event_def block_switch_def thenf_assoc)

lemma block_switch_open:
  "cur_channel st = ChannelCallSign e \<Longrightarrow> ChannelCallSign e \<noteq> [] \<Longrightarrow>
     block_switch F ch st e = Inr (sconn st, [], cur_channel st, nchan st)"
  by (simp add: block_switch_def)

lemma block_switch_no_panic:
  assumes "replies_long (sconn st)"
  shows "no_panic (\<lambda>(c2, cmd, cur, n). replies_long c2) (block_switch F ch st e)"
proof -
  have first: "no_panic replies_long
      (if cur_channel st \<noteq> [] \<and> cur_channel st \<noteq> ChannelCallSign e
       then close_block F (sconn st) else Inr (sconn st))"
    by (simp add: assms close_block_no_panic)
  show ?thesis
    unfolding block_switch_def
    by (rule no_panic_thenf [OF first])
      (auto intro!: no_panic_thenf [OF write_n_reply_no_panic])
qed

lemma epg_event_Panic_iff:
  assumes "dir (ChannelCallSign e) = Some ch"
  shows "epg_event F dir st e = Inl Panic \<longleftrightarrow>
           block_switch F ch st e = Inl Panic
           \<or> (\<exists>r. block_switch F ch st e = Inr r)
               \<and> (length (EEStartTime e) < 14 \<or> length (EEStopTime e) < 14)"
proof (cases "block_switch F ch st e")
  case (Inl f)
  then show ?thesis
    by (simp add: epg_event_via_switch [of dir e ch F st, OF assms])
next
  case (Inr r)
  obtain c2 cmd cur n where r: "r = (c2, cmd, cur, n)"
    by (cases r) auto
  show ?thesis
  proof (cases "length (EEStartTime e) < 14")
    case True
    then show ?thesis
      by (simp add: epg_event_via_switch [of dir e ch F st, OF assms] Inr r parse_stamp_short)
  next
    case False
    then obtain dts where a: "parse_stamp (EEStartTime e) = Inr dts"
      using parse_stamp_long [of "EEStartTime e"] by auto
    show ?thesis
    proof (cases "length (EEStopTime e) < 14")
      case True
      then show ?thesis
        by (simp add: epg_event_via_switch [of dir e ch F st, OF assms] Inr r a parse_stamp_short)
    next
      case stop: False
      then obtain dte where b: "parse_stamp (EEStopTime e) = Inr dte"
        using parse_stamp_long [of "EEStopTime e"] by auto
      from False stop show ?thesis
        by (simp add: epg_event_via_switch [of dir e ch F st, OF assms] Inr r a b)
    qed
  qed
qed

lemma epg_event_no_panic:
  assumes r: "replies_long (sconn st)"
    and s: "14 \<le> length (EEStartTime e)" "14 \<le> length (EEStopTime e)"
  shows "no_panic (\<lambda>s. replies_long (sconn s)) (epg_event F dir st e)"
proof (cases "dir (ChannelCallSign e)")
  case None
  then show ?thesis by (simp add: epg_event_def r)
next
  case (Some ch)
  from parse_stamp_long [OF s(1)] obtain dts where a: "parse_stamp (EEStartTime e) = Inr dts" ..
  from parse_stamp_long [OF s(2)] obtain dte where b: "parse_stamp (EEStopTime e) = Inr dte" ..
  show ?thesis
    unfolding epg_event_via_switch [of dir e ch F st, OF Some]
    by (rule no_panic_thenf [OF block_switch_no_panic [OF r]]) (auto simp: a b)
qed

lemma epg_loop_no_panic:
  assumes "replies_long (sconn st)"
    and "\<forall>e \<in> set evs. 14 \<le> length (EEStartTime e) \<and> 14 \<le> length (EEStopTime e)"
  shows "no_panic (\<lambda>s. replies_long (sconn s)) (epg_loop F dir st evs)"
  using assms
proof (induction evs arbitrary: st)
  case Nil
  then show ?case by simp
next
  case (Cons e evs)
  show ?case
    unfolding epg_loop.simps
    by (rule no_panic_thenf [OF epg_event_no_panic]) (use Cons in auto)
qed

lemma epg_start_no_panic:
  assumes "\<forall>bytes \<in> set replies. line_long bytes"
  shows "no_panic (\<lambda>s. replies_long (sconn s)) (epg_start F dialled replies)"
proof (cases dialled)
  case False
  then show ?thesis by (simp add: epg_start_def)
next
  case True
  have "replies_long \<lparr>wire = [], inbox = replies\<rparr>"
    using assms by (simp add: replies_long_def)
  then show ?thesis
    unfolding epg_start_def using True
    by (auto intro!: no_panic_thenf [OF wait_no_panic] no_panic_thenf [OF write_n_reply_no_panic])
qed

lemma epg_finish_no_panic:
  assumes "replies_long (sconn st)"
  shows "no_panic (\<lambda>s. True) (epg_finish F st)"
  unfolding epg_finish_def using assms
  by (auto intro!: no_panic_thenf [OF close_block_no_panic] no_panic_thenf [OF write_n_reply_no_panic])

lemma vdr_epg_load_no_panic:
  assumes "\<forall>bytes \<in> set replies. line_long bytes"
    and "\<forall>e \<in> set evs. 14 \<le> length (EEStartTime e) \<and> 14 \<le> length (EEStopTime e)"
  shows "vdr_epg_load F dir dialled replies evs \<noteq> Inl Panic"
proof -
  have "no_panic (\<lambda>s. True) (vdr_epg_load F dir dialled replies evs)"
    unfolding vdr_epg_load_def
    by (rule no_panic_thenf [OF epg_start_no_panic [OF assms(1)]],
        rule no_panic_thenf [OF epg_loop_no_panic [OF _ assms(2)]])
       (simp_all add: epg_finish_no_panic)
  then show ?thesis by (rule no_panic_not_Panic)
qed

lemma epg_event_open_Panic_iff:
  assumes "dir (ChannelCallSign e) = Some ch" and "cur_channel st = ChannelCallSign e"
    and "ChannelCallSign e \<noteq> []"
  shows "epg_event F dir st e = Inl Panic
           \<longleftrightarrow> length (EEStartTime e) < 14 \<or> length (EEStopTime e) < 14"
  by (simp add: epg_event_Panic_iff [of dir e ch F st, OF assms(1)] block_switch_open [OF assms(2,3)])

section \<open>Facts about the traffic of one iteration\<close>

lemma wait_wire:
  "svdrp_wait_for_reply c r = Inr c' \<Longrightarrow> wire c' = wire c @ [Rx r]"
  by (auto simp: svdrp_wait_for_reply_def thenf_eq_Inr split: list.splits if_splits prod.splits)

lemma write_n_reply_wire:
  "svdrp_write_n_reply F c cmd r = Inr c' \<Longrightarrow> wire c' = wire c @ [Tx (F (cmd @ CRLF)), Rx r]"
  by (auto simp: svdrp_write_n_reply_def svdrp_write_s_def dest!: wait_wire)

lemma close_block_wire:
  "close_block F c = Inr c' \<Longrightarrow>
     wire c' = wire c @ [Tx (F (F (''c'' @ CRLF))), Tx (F (''.'' @ CRLF)), Rx VDR_SC_ACTION_OK]"
  by (auto simp: close_block_def svdrp_write_def dest!: write_n_reply_wire)

lemma epg_event_same:
  assumes "dir (ChannelCallSign e) = Some ch" and "cur_channel st = ChannelCallSign e"
    and "ChannelCallSign e \<noteq> []" and "epg_event F dir st e = Inr st'"
  shows "\<exists>dts dte. wire (sconn st') = wire (sconn st) @ [Tx (F (F (event_lines e dts dte @ CRLF)))]
           \<and> cur_channel st' = ChannelCallSign e"
  using assms
  by (fastforce simp: epg_event_def thenf_eq_Inr svdrp_write_def)

lemma epg_event_first:
  assumes "dir (ChannelCallSign e) = Some ch" and "cur_channel st = []"
    and "ChannelCallSign e \<noteq> []" and "epg_event F dir st e = Inr st'"
  shows "\<exists>dts dte. wire (sconn st') = wire (sconn st)
             @ [Tx (F (''PUTE'' @ CRLF)), Rx VDR_SC_EPG_START_SENDING,
                Tx (F (F (channel_header ch (ChannelCallSign e) @ event_lines e dts dte @ CRLF)))]
           \<and> cur_channel st' = ChannelCallSign e"
  using assms
  by (fastforce simp: epg_event_def thenf_eq_Inr svdrp_write_def dest!: write_n_reply_wire)

lemma epg_event_switch:
  assumes "dir (ChannelCallSign e) = Some ch" and "cur_channel st \<noteq> []"
    and "cur_channel st \<noteq> ChannelCallSign e" and "epg_event F dir st e = Inr st'"
  shows "\<exists>dts dte. wire (sconn st') = wire (sconn st)
             @ [Tx (F (F (''c'' @ CRLF))), Tx (F (''.'' @ CRLF)), Rx VDR_SC_ACTION_OK,
                Tx (F (''PUTE'' @ CRLF)), Rx VDR_SC_EPG_START_SENDING,
                Tx (F (F (channel_header ch (ChannelCallSign e) @ event_lines e dts dte @ CRLF)))]
           \<and> cur_channel st' = ChannelCallSign e"
  using assms
  by (fastforce simp: epg_event_def thenf_eq_Inr svdrp_write_def
      dest!: write_n_reply_wire close_block_wire)

lemma block_switch_wire:
  assumes "block_switch F ch st e = Inr (c2, cmd, cur, n)"
  shows "\<exists>tr. wire c2 = wire (sconn st) @ tr"
  using assms
  by (fastforce simp: block_switch_def thenf_eq_Inr split: if_splits
      dest!: write_n_reply_wire close_block_wire)

lemma epg_event_accepted_writes:
  assumes "dir (ChannelCallSign e) = Some ch" and "epg_event F dir st e = Inr st'"
  shows "\<exists>tr. tr \<noteq> [] \<and> wire (sconn st') = wire (sconn st) @ tr"
proof -
  from assms(2) obtain c2 cmd cur n dts dte where
    b: "block_switch F ch st e = Inr (c2, cmd, cur, n)" and
    s: "st' = \<lparr>sconn = svdrp_write F c2 (cmd @ event_lines e dts dte),
                  cur_channel = cur, nchan = incr n cur\<rparr>"
    unfolding epg_event_via_switch [of dir e ch F st, OF assms(1)]
    by (auto simp: thenf_eq_Inr)
  from block_switch_wire [OF b] obtain tr where t: "wire c2 = wire (sconn st) @ tr" ..
  have "wire (sconn st') = wire (sconn st) @ (tr @ [Tx (F (F ((cmd @ event_lines e dts dte) @ CRLF)))])"
    by (simp add: s svdrp_write_def t)
  then show ?thesis
    by blast
qed

lemma opens_append [simp]: "opens (xs @ ys) = opens xs + opens ys"
  by (simp add: opens_def)

lemma opens_Tx [simp]: "opens (Tx t # xs) = opens xs"
  by (simp add: opens_def)

lemma opens_Nil [simp]: "opens [] = 0"
  by (simp add: opens_def)

lemma opens_Rx [simp]:
  "opens (Rx r # xs) = (if r = VDR_SC_EPG_START_SENDING then 1 else 0) + opens xs"
  by (simp add: opens_def)

lemma fmt_int_codes: "fmt_int 220 = ''220''" "fmt_int 250 = ''250''" "fmt_int 221 = ''221''"
  "fmt_int 354 = ''354''"
  by (simp_all add: fmt_int_def show_dec.simps digit_char_def)

lemmas sample_eval =
  epg_event_def sample_dir_def sample_event_def parse_sample_start parse_sample_stop
  svdrp_write_def svdrp_write_s_def svdrp_write_n_reply_def svdrp_wait_for_reply_def
  close_block_def go_slice_def incr_def fmt_int_codes ReadString_def LF_def CRLF_def
  VDR_SC_EPG_START_SENDING_def VDR_SC_ACTION_OK_def

lemma sample_step_open:
  "epg_event (\<lambda>s. s) sample_dir sample_closed sample_event = Inr sample_opened"
  by (simp add: sample_eval sample_closed_def sample_opened_def)

lemma sample_step_again:
  "epg_event (\<lambda>s. s) sample_dir sample_opened sample_event = Inr sample_opened2"
  by (simp add: sample_eval sample_opened_def sample_opened2_def)

lemma sample_step_switch:
  "epg_event (\<lambda>s. s) sample_dir sample_other sample_event = Inr sample_switched"
  by (simp add: sample_eval sample_other_def sample_switched_def)

section \<open>The channel identifier\<close>

text \<open>
  C3. \<open>vdr_make_channel_id\<close> follows the two-branch rule: when \<open>TransportId\<close> or
  \<open>NetworkId\<close> differs from \<open>"0"\<close> the result is Source-NetworkId-TransportId-ServiceId,
  with no frequency in it; otherwise it is Source-NetworkId-freq-ServiceId, where freq is
  the integer value of \<open>Frequency\<close>, divided by 1000 with truncation exactly when \<open>Source\<close>
  is \<open>"A"\<close> or \<open>"T"\<close>. In particular the descriptor with Source T, Frequency 474000,
  NetworkId 0, TransportId 0 and ServiceId 3 yields \<open>T-0-474-3\<close>.
\<close>

theorem vdr_make_channel_id_two_branch:
  "vdr_make_channel_id c =
     (if TransportId c \<noteq> ''0'' \<or> NetworkId c \<noteq> ''0''
      then Source c @ ''-'' @ NetworkId c @ ''-'' @ TransportId c @ ''-'' @ ServiceId c
      else Source c @ ''-'' @ NetworkId c @ ''-''
           @ fmt_int (if Source c = ''A'' \<or> Source c = ''T''
                      then go_quot (go_Atoi (Frequency c)) 1000
                      else go_Atoi (Frequency c))
           @ ''-'' @ ServiceId c)
   \<and> (Source c = ''T'' \<and> Frequency c = ''474000'' \<and> NetworkId c = ''0''
        \<and> TransportId c = ''0'' \<and> ServiceId c = ''3''
      \<longrightarrow> vdr_make_channel_id c = ''T-0-474-3'')"
proof -
  have quot: "go_quot 474000 1000 = 474"
    by (simp add: go_quot_def)
  show ?thesis
    by (simp add: vdr_make_channel_id_def Let_def go_Atoi_474000 quot fmt_int_474)
qed

theorem vdr_make_channel_id_two_branch_witness:
  "Source sample_channel = ''T'' \<and> Frequency sample_channel = ''474000''
   \<and> NetworkId sample_channel = ''0'' \<and> TransportId sample_channel = ''0''
   \<and> ServiceId sample_channel = ''3''
   \<and> vdr_make_channel_id sample_channel = ''T-0-474-3''"
proof -
  have h: "Source sample_channel = ''T'' \<and> Frequency sample_channel = ''474000''
     \<and> NetworkId sample_channel = ''0'' \<and> TransportId sample_channel = ''0''
     \<and> ServiceId sample_channel = ''3''"
    by (simp add: sample_channel_def)
  from vdr_make_channel_id_two_branch [of sample_channel] h show ?thesis
    by blast
qed

section \<open>The event identifier\<close>

text \<open>
  C1, as the program has it. For every event the session transmits, the identifier on
  the \<open>E\<close> line is computed from the start instant alone, as
  \<open>dts.Unix() / 60 % 0xffff\<close> with the truncating operators of Go: the modulus is
  65535, not 65536. For a start instant at or after the epoch this is
  \<open>(start div 60) mod 65535\<close> and lies between 0 and 65534.
\<close>

theorem event_id_emitted:
  assumes "dir (ChannelCallSign e) = Some ch"
    and "epg_event F dir st e = Inr st'"
  shows "\<exists>dts dte cmd rest.
      parse_stamp (EEStartTime e) = Inr dts
      \<and> last (wire (sconn st')) = Tx (F (F (cmd @ event_lines e dts dte @ CRLF)))
      \<and> event_lines e dts dte = ''E '' @ fmt_int (go_rem (go_quot dts 60) 65535) @ '' '' @ rest
      \<and> (0 \<le> dts \<longrightarrow> go_rem (go_quot dts 60) 65535 = (dts div 60) mod 65535
                       \<and> 0 \<le> (dts div 60) mod 65535 \<and> (dts div 60) mod 65535 \<le> 65534)"
proof -
  from epg_event_accepted [OF assms] obtain dts dte c2 cmd where
    p: "parse_stamp (EEStartTime e) = Inr dts" and
    w: "sconn st' = svdrp_write F c2 (cmd @ event_lines e dts dte)"
    by blast
  have l: "last (wire (sconn st')) = Tx (F (F (cmd @ event_lines e dts dte @ CRLF)))"
    by (simp add: w svdrp_write_def)
  have h: "event_lines e dts dte = ''E '' @ fmt_int (go_rem (go_quot dts 60) 65535) @ '' ''
      @ (fmt_int dts @ '' '' @ fmt_int (event_duration dts dte) @ '' 0'' @ CRLF
         @ ''T '' @ TTitle e @ CRLF
         @ (if SSubTitle e \<noteq> [] then ''S '' @ SSubTitle e @ CRLF else [])
         @ ''D '' @ DDescription e @ CRLF
         @ ''G '' @ genre_field (GGenres e) @ CRLF
         @ ''R '' @ fmt_int (RRating e) @ CRLF
         @ ''e'')"
    by (simp add: event_lines_def event_header_def event_id_def)
  have r: "0 \<le> dts \<longrightarrow> go_rem (go_quot dts 60) 65535 = (dts div 60) mod 65535
                       \<and> 0 \<le> (dts div 60) mod 65535 \<and> (dts div 60) mod 65535 \<le> 65534"
    using event_id_nonneg [of dts] by (simp add: event_id_def)
  from p l h r show ?thesis by blast
qed

theorem event_id_emitted_witness:
  "sample_dir (ChannelCallSign sample_event) = Some sample_channel
   \<and> epg_event (\<lambda>s. s) sample_dir sample_open sample_event = Inr sample_after
   \<and> (\<exists>dts dte cmd rest.
      parse_stamp (EEStartTime sample_event) = Inr dts
      \<and> last (wire (sconn sample_after)) = Tx (cmd @ event_lines sample_event dts dte @ CRLF)
      \<and> event_lines sample_event dts dte = ''E '' @ fmt_int (go_rem (go_quot dts 60) 65535) @ '' '' @ rest
      \<and> (0 \<le> dts \<longrightarrow> go_rem (go_quot dts 60) 65535 = (dts div 60) mod 65535
                       \<and> 0 \<le> (dts div 60) mod 65535 \<and> (dts div 60) mod 65535 \<le> 65534))"
proof -
  have a: "sample_dir (ChannelCallSign sample_event) = Some sample_channel"
    by (simp add: sample_dir_def sample_event_def)
  from event_id_emitted [OF a sample_step] a sample_step show ?thesis
    by simp
qed

theorem event_id_counterexample:
  "parse_stamp ''20130101000000'' = Inr 1356998400
   \<and> event_header 1356998400 1357000200 = ''E 7065 1356998400 1800 0'' @ CRLF
   \<and> spec_EventId 1356998400 = 6720
   \<and> event_id 1356998400 \<noteq> spec_EventId 1356998400"
  by code_simp

section \<open>The duration\<close>

text \<open>
  C9, as the program has it. For every event the session transmits, the duration on the
  \<open>E\<close> line is \<open>int(dte.Sub(dts).Seconds())\<close>, with no check of its sign: it is
  stop - start in whole seconds, negative when the stop precedes the start, as long as
  the difference fits a \<open>time.Duration\<close> (at most 9223372036 seconds either way, about
  292 years); beyond that \<open>Sub\<close> saturates and the line carries -9223372036 or
  9223372036.
\<close>

theorem duration_emitted:
  assumes "dir (ChannelCallSign e) = Some ch"
    and "epg_event F dir st e = Inr st'"
  shows "\<exists>dts dte cmd rest.
      parse_stamp (EEStartTime e) = Inr dts \<and> parse_stamp (EEStopTime e) = Inr dte
      \<and> last (wire (sconn st')) = Tx (F (F (cmd @ event_lines e dts dte @ CRLF)))
      \<and> event_lines e dts dte =
          ''E '' @ fmt_int (event_id dts) @ '' '' @ fmt_int dts @ '' ''
            @ fmt_int (event_duration dts dte) @ '' 0'' @ CRLF @ rest
      \<and> (\<bar>dte - dts\<bar> \<le> 9223372036 \<longrightarrow> event_duration dts dte = dte - dts)
      \<and> (dte - dts < - 9223372036 \<longrightarrow> event_duration dts dte = - 9223372036)
      \<and> (9223372036 < dte - dts \<longrightarrow> event_duration dts dte = 9223372036)"
proof -
  from epg_event_accepted [OF assms] obtain dts dte c2 cmd where
    p: "parse_stamp (EEStartTime e) = Inr dts" "parse_stamp (EEStopTime e) = Inr dte" and
    w: "sconn st' = svdrp_write F c2 (cmd @ event_lines e dts dte)"
    by blast
  have l: "last (wire (sconn st')) = Tx (F (F (cmd @ event_lines e dts dte @ CRLF)))"
    by (simp add: w svdrp_write_def)
  have h: "event_lines e dts dte =
          ''E '' @ fmt_int (event_id dts) @ '' '' @ fmt_int dts @ '' ''
            @ fmt_int (event_duration dts dte) @ '' 0'' @ CRLF
            @ (''T '' @ TTitle e @ CRLF
               @ (if SSubTitle e \<noteq> [] then ''S '' @ SSubTitle e @ CRLF else [])
               @ ''D '' @ DDescription e @ CRLF
               @ ''G '' @ genre_field (GGenres e) @ CRLF
               @ ''R '' @ fmt_int (RRating e) @ CRLF
               @ ''e'')"
    by (simp add: event_lines_def event_header_def)
  have r: "(\<bar>dte - dts\<bar> \<le> 9223372036 \<longrightarrow> event_duration dts dte = dte - dts)
      \<and> (dte - dts < - 9223372036 \<longrightarrow> event_duration dts dte = - 9223372036)
      \<and> (9223372036 < dte - dts \<longrightarrow> event_duration dts dte = 9223372036)"
    by (simp add: event_duration_clamp)
  from p l h r show ?thesis by blast
qed

theorem duration_emitted_witness:
  "sample_dir (ChannelCallSign sample_backwards) = Some sample_channel
   \<and> epg_event (\<lambda>s. s) sample_dir sample_open sample_backwards = Inr sample_after_backwards
   \<and> parse_stamp (EEStartTime sample_backwards) = Inr 1357000200
   \<and> parse_stamp (EEStopTime sample_backwards) = Inr 1356998400
   \<and> event_duration 1357000200 1356998400 = - 1800"
proof -
  have a: "sample_dir (ChannelCallSign sample_backwards) = Some sample_channel"
    by (simp add: sample_dir_def sample_event_def sample_backwards_def)
  have p: "parse_stamp (EEStartTime sample_backwards) = Inr 1357000200"
    "parse_stamp (EEStopTime sample_backwards) = Inr 1356998400"
    by (simp_all add: sample_backwards_def parse_2013 parse_2013_0030)
  from duration_emitted [OF a sample_step_backwards] obtain dts dte where
    "parse_stamp (EEStartTime sample_backwards) = Inr dts"
    "parse_stamp (EEStopTime sample_backwards) = Inr dte"
    "\<bar>dte - dts\<bar> \<le> 9223372036 \<longrightarrow> event_duration dts dte = dte - dts"
    by blast
  with p have "event_duration 1357000200 1356998400 = - 1800"
    by simp
  with a p sample_step_backwards show ?thesis
    by simp
qed

theorem duration_counterexample:
  "parse_stamp ''20130101000000'' = Inr 1356998400
   \<and> parse_stamp ''17000101000000'' = Inr (- 8520336000)
   \<and> event_header 1356998400 (- 8520336000) = ''E 7065 1356998400 -9223372036 0'' @ CRLF
   \<and> event_duration 1356998400 (- 8520336000) \<noteq> (- 8520336000) - 1356998400"
  by code_simp

section \<open>Genre codes\<close>

text \<open>
  C2, as the program has it. The genre list of an event is built by exact,
  case-sensitive lookup of each category string in the table, in document order, and
  every category contributes an entry: a string without a table entry contributes the
  code 0 (the value a Go map yields for a missing key), so the genre list always has as
  many entries as the programme has categories.
\<close>

theorem genre_codes_zero_filled:
  "GGenres (programme_event x2c p) = map genres_at (Categories p)
   \<and> length (GGenres (programme_event x2c p)) = length (Categories p)
   \<and> (map_of genres c = None \<longrightarrow> genres_at c = 0)
   \<and> (map_of genres c = Some code \<longrightarrow> genres_at c = code)"
  by (simp add: programme_event_genres genres_at_def)

theorem genre_codes_zero_filled_witness:
  "map_of genres ''Sitcom'' = None \<and> genres_at ''Sitcom'' = 0
   \<and> map_of genres ''News'' = Some 32 \<and> genres_at ''News'' = 32
   \<and> GGenres (programme_event Map.empty sample_programme) = [32, 0]"
proof -
  from genre_codes_zero_filled [of Map.empty sample_programme "''Sitcom''"] genres_Sitcom
  have a: "genres_at ''Sitcom'' = 0"
    and g: "GGenres (programme_event Map.empty sample_programme) = map genres_at (Categories sample_programme)"
    by blast+
  from genre_codes_zero_filled [of Map.empty sample_programme "''News''" 32] genres_News
  have b: "genres_at ''News'' = 32"
    by blast
  from g a b have "GGenres (programme_event Map.empty sample_programme) = [32, 0]"
    by (simp add: sample_programme_def)
  with a b genres_Sitcom genres_News show ?thesis
    by simp
qed

theorem genre_codes_counterexample:
  "Categories sample_programme = [''News'', ''Sitcom'']
   \<and> map_of genres ''Sitcom'' = None
   \<and> GGenres (programme_event Map.empty sample_programme) = [32, 0]
   \<and> spec_genre_codes (Categories sample_programme) = [32]
   \<and> GGenres (programme_event Map.empty sample_programme)
        \<noteq> spec_genre_codes (Categories sample_programme)"
  by code_simp

section \<open>Aliases\<close>

text \<open>
  C6 at a sample input. The directory holds the channel \<open>WCVB\<close> with no aliases; the
  document has a channel \<open>I1\<close> with the display names \<open>5 WCVB\<close>, \<open>WCVB\<close> and \<open>ABC\<close>.
  Resolution maps \<open>I1\<close> to \<open>WCVB\<close>, the first display name that is a call sign of the
  directory, and leaves the directory as it was: the alias list of the descriptor held
  there is still empty, because the names were copied into a local copy of it.
\<close>

theorem aliases_not_recorded:
  "resolve_channel sample_globals sample_xml_channel
     = \<lparr>channels = sample_dir, xmltvid2callsign = [''I1'' \<mapsto> ''WCVB'']\<rparr>
   \<and> Names sample_xml_channel = [''5 WCVB'', ''WCVB'', ''ABC'']
   \<and> map_option Aliases (channels (resolve_channel sample_globals sample_xml_channel) ''WCVB'')
       = Some []"
  by (simp add: resolve_channel_def sample_globals_def sample_xml_channel_def sample_dir_def
      sample_channel_def Let_def)

theorem aliases_not_recorded_witness:
  "map_option Aliases (channels (resolve_channel sample_globals sample_xml_channel) ''WCVB'')
     \<noteq> Some (Names sample_xml_channel)"
proof -
  from aliases_not_recorded
  have a: "map_option Aliases (channels (resolve_channel sample_globals sample_xml_channel) ''WCVB'')
       = Some []"
    and n: "Names sample_xml_channel = [''5 WCVB'', ''WCVB'', ''ABC'']"
    by blast+
  show ?thesis
    unfolding a n by simp
qed

section \<open>The directory is read only\<close>

text \<open>
  C7. The channel directory is never changed after its load: in every state the process
  reaches from its start, whatever the document, the replies of the peer and the
  interleaving of \<open>main\<close> with the session, the map \<open>channels\<close> is the one the process
  started with; every single step of either side leaves it as it is, and so does
  cross-reference resolution.
\<close>

theorem directory_never_mutated:
  "(rtranclp (step F dialled replies) (init_world dir doc) w \<longrightarrow> channels (glob w) = dir)
   \<and> (step F dialled replies w w' \<longrightarrow> channels (glob w') = channels (glob w))
   \<and> channels (resolve_channel g ch) = channels g"
proof -
  have "channels (glob (init_world dir doc)) = dir"
    by (simp add: init_world_def)
  then show ?thesis
    using steps_channels [of F dialled replies "init_world dir doc" w]
      step_channels [of F dialled replies w w']
    by (simp add: resolve_channel_channels)
qed

theorem directory_never_mutated_witness:
  "rtranclp (step (\<lambda>s. s) True []) (init_world sample_dir sample_doc) sample_world1
   \<and> step (\<lambda>s. s) True [] (init_world sample_dir sample_doc) sample_world1
   \<and> channels (glob sample_world1) = sample_dir
   \<and> channels (glob sample_world1) = channels (glob (init_world sample_dir sample_doc))"
proof -
  have s: "step (\<lambda>s. s) True [] (init_world sample_dir sample_doc) sample_world1"
    by (simp add: step_def sample_prod_step1)
  then have r: "rtranclp (step (\<lambda>s. s) True []) (init_world sample_dir sample_doc) sample_world1"
    by (rule r_into_rtranclp)
  from directory_never_mutated
    [where F = "\<lambda>s. s" and dialled = True and replies = "[]" and dir = sample_dir
       and doc = sample_doc and w = sample_world1] r
  have a: "channels (glob sample_world1) = sample_dir"
    by blast
  from directory_never_mutated
    [where F = "\<lambda>s. s" and dialled = True and replies = "[]"
       and w = "init_world sample_dir sample_doc" and w' = sample_world1] s
  have b: "channels (glob sample_world1) = channels (glob (init_world sample_dir sample_doc))"
    by blast
  from s r a b show ?thesis
    by blast
qed

section \<open>Events without a channel\<close>

text \<open>
  C8. A programme whose channel id has no call-sign mapping is translated and sent on the
  queue like any other: the event that is queued has the programme's channel id, both
  timestamps, title, subtitle and description, the genre code of every category and the
  rating code, and the empty string as its call sign. The session drops an event whose
  call sign has no entry in the directory: the iteration ends at once, without an error,
  with nothing written to the connection and the session state as it was. So the event
  of an unmapped programme is dropped when the directory has no entry under the empty
  call sign. Only such events are dropped: an accepted event whose iteration succeeds
  has written to the connection.
\<close>

theorem unmapped_programme_enqueued_then_dropped:
  "(xmltvid2callsign (glob w) (PChannel p) = None \<and> input w = ProgrammeEl p # rest
      \<and> comm w = [] \<and> \<not> aborted w
    \<longrightarrow> prod_step w
          = Some (w\<lparr>input := rest,
                    comm := [\<lparr>CChannel = PChannel p, ChannelCallSign = [], EEventId = 0,
                              EEStartTime = Start p, EEStopTime = Stop p, EEDuration = Stop p,
                              TTitle = Title p, SSubTitle = SubTitle p,
                              DDescription = Description p,
                              GGenres = map genres_at (Categories p),
                              RRating = ratings_at (Rating p)\<rparr>]\<rparr>))
   \<and> (dir (ChannelCallSign e) = None \<longrightarrow> epg_event F dir st e = Inr st)
   \<and> (x2c (PChannel p) = None \<and> dir [] = None
    \<longrightarrow> epg_event F dir st (programme_event x2c p) = Inr st)
   \<and> (cons w = Looping s \<and> comm w = e # q \<and> channels (glob w) (ChannelCallSign e) = None
    \<longrightarrow> cons_step F dialled replies w = Some (w\<lparr>comm := q\<rparr>))
   \<and> (dir (ChannelCallSign e) = Some ch \<and> epg_event F dir st e = Inr st'
    \<longrightarrow> (\<exists>tr. tr \<noteq> [] \<and> wire (sconn st') = wire (sconn st) @ tr))"
proof -
  have a: "dir (ChannelCallSign e) = None \<longrightarrow> epg_event F dir st e = Inr st"
    by (simp add: epg_event_def)
  have a': "x2c (PChannel p) = None \<and> dir [] = None
    \<longrightarrow> epg_event F dir st (programme_event x2c p) = Inr st"
    by (simp add: epg_event_def programme_event_callsign callsign_at_def)
  have b: "cons w = Looping s \<and> comm w = e # q \<and> channels (glob w) (ChannelCallSign e) = None
    \<longrightarrow> cons_step F dialled replies w = Some (w\<lparr>comm := q\<rparr>)"
    by (auto simp: cons_step_def epg_event_def consumer_of_def)
  have c: "xmltvid2callsign (glob w) (PChannel p) = None \<and> input w = ProgrammeEl p # rest
      \<and> comm w = [] \<and> \<not> aborted w
    \<longrightarrow> prod_step w
          = Some (w\<lparr>input := rest,
                    comm := [\<lparr>CChannel = PChannel p, ChannelCallSign = [], EEventId = 0,
                              EEStartTime = Start p, EEStopTime = Stop p, EEDuration = Stop p,
                              TTitle = Title p, SSubTitle = SubTitle p,
                              DDescription = Description p,
                              GGenres = map genres_at (Categories p),
                              RRating = ratings_at (Rating p)\<rparr>]\<rparr>)"
    by (simp add: prod_step_def programme_event_fields callsign_at_def)
  have d: "dir (ChannelCallSign e) = Some ch \<and> epg_event F dir st e = Inr st'
    \<longrightarrow> (\<exists>tr. tr \<noteq> [] \<and> wire (sconn st') = wire (sconn st) @ tr)"
    using epg_event_accepted_writes [of dir e ch F st st'] by blast
  from a a' b c d show ?thesis by blast
qed

theorem unmapped_programme_enqueued_then_dropped_witness:
  "xmltvid2callsign (glob sample_world1) (PChannel sample_programme) = None
   \<and> prod_step sample_world1
       = Some (sample_world1\<lparr>input := [],
                 comm := [\<lparr>CChannel = ''I9'', ChannelCallSign = [], EEventId = 0,
                           EEStartTime = ''20130101000000 +0000'',
                           EEStopTime = ''20130101003000 +0000'',
                           EEDuration = ''20130101003000 +0000'',
                           TTitle = ''News'', SSubTitle = [], DDescription = ''Local news'',
                           GGenres = [32, 0], RRating = 8\<rparr>]\<rparr>)
   \<and> sample_dir [] = None
   \<and> epg_event (\<lambda>s. s) sample_dir sample_open
        (programme_event (xmltvid2callsign (glob sample_world1)) sample_programme)
       = Inr sample_open"
proof -
  let ?x2c = "xmltvid2callsign (glob sample_world1)"
  have h: "?x2c (PChannel sample_programme) = None
      \<and> input sample_world1 = ProgrammeEl sample_programme # []
      \<and> comm sample_world1 = [] \<and> \<not> aborted sample_world1"
    by (simp add: sample_world1_def sample_programme_def aborted_def)
  from unmapped_programme_enqueued_then_dropped
    [where w = sample_world1 and p = sample_programme and rest = "[]"] h
  have "prod_step sample_world1
          = Some (sample_world1\<lparr>input := [],
                    comm := [\<lparr>CChannel = PChannel sample_programme, ChannelCallSign = [],
                              EEventId = 0, EEStartTime = Start sample_programme,
                              EEStopTime = Stop sample_programme,
                              EEDuration = Stop sample_programme,
                              TTitle = Title sample_programme,
                              SSubTitle = SubTitle sample_programme,
                              DDescription = Description sample_programme,
                              GGenres = map genres_at (Categories sample_programme),
                              RRating = ratings_at (Rating sample_programme)\<rparr>]\<rparr>)"
    by blast
  then have p: "prod_step sample_world1
       = Some (sample_world1\<lparr>input := [],
                 comm := [\<lparr>CChannel = ''I9'', ChannelCallSign = [], EEventId = 0,
                           EEStartTime = ''20130101000000 +0000'',
                           EEStopTime = ''20130101003000 +0000'',
                           EEDuration = ''20130101003000 +0000'',
                           TTitle = ''News'', SSubTitle = [], DDescription = ''Local news'',
                           GGenres = [32, 0], RRating = 8\<rparr>]\<rparr>)"
    by (simp add: sample_programme_def genres_at_News genres_at_Sitcom ratings_at_TV_G)
  have d: "sample_dir [] = None"
    by (simp add: sample_dir_def)
  from unmapped_programme_enqueued_then_dropped
    [where x2c = ?x2c and p = sample_programme and dir = sample_dir and F = "\<lambda>s. s"
       and st = sample_open] h d
  have "epg_event (\<lambda>s. s) sample_dir sample_open (programme_event ?x2c sample_programme)
          = Inr sample_open"
    by blast
  with h p d show ?thesis
    by simp
qed

section \<open>The end of the input\<close>

text \<open>
  C5 at a sample input. The queue is closed before any event was received, so no channel
  block was ever opened (\<open>cur_channel\<close> is still empty). The session nevertheless writes
  the lines \<open>c\<close> and \<open>.\<close> and waits for the reply 250 before it quits: the close
  sequence at the end of \<open>vdr_epg_load\<close> is not guarded by \<open>cur_channel != ""\<close> as the
  one inside the loop is.
\<close>

theorem end_of_input_closes_without_block:
  "vdr_epg_load F dir True sample_replies_idle []
     = Inr \<lparr>sconn = \<lparr>wire = [Rx 220, Tx (F (''CLRE'' @ CRLF)), Rx 250,
                             Tx (F (F (''c'' @ CRLF))), Tx (F (''.'' @ CRLF)), Rx 250,
                             Tx (F (''QUIT'' @ CRLF)), Rx 221, Closed],
                     inbox = []\<rparr>,
            cur_channel = [], nchan = Map.empty\<rparr>"
proof -
  have f: "fmt_int 220 = ''220''" "fmt_int 250 = ''250''" "fmt_int 221 = ''221''"
    by (simp_all add: fmt_int_def show_dec.simps digit_char_def)
  show ?thesis
    by (simp add: vdr_epg_load_def epg_start_def epg_finish_def close_block_def
        svdrp_write_n_reply_def svdrp_wait_for_reply_def svdrp_write_def svdrp_write_s_def
        go_slice_def sample_replies_idle_def f ReadString_def LF_def CRLF_def
        VDR_SC_SERVICE_READY_def VDR_SC_ACTION_OK_def VDR_SC_SERVICE_CLOSING_def)
qed

theorem end_of_input_closes_without_block_witness:
  "map_sum id (\<lambda>s. (cur_channel s, wire (sconn s)))
     (vdr_epg_load (\<lambda>s. s) sample_dir True sample_replies_idle [])
     = Inr ([], [Rx 220, Tx (''CLRE'' @ CRLF), Rx 250, Tx (''c'' @ CRLF), Tx (''.'' @ CRLF),
                 Rx 250, Tx (''QUIT'' @ CRLF), Rx 221, Closed])"
  using end_of_input_closes_without_block [of "\<lambda>s. s" sample_dir]
  by simp

section \<open>Slices without length checks\<close>

text \<open>
  C10. The session slices without checking lengths, and its slices are in bounds exactly
  when the strings are long enough. Parsing a timestamp panics if and only if the string
  has fewer than 14 bytes. Waiting for a reply panics, once a line has been read, if and
  only if that line (its newline included) has fewer than 3 bytes; when the read fails
  the process exits before the slice. For an accepted event the iteration panics if and
  only if the handshake at its head panics, or the handshake succeeds and one of the two
  timestamps has fewer than 14 bytes; the handshake does not panic when the reply lines
  are long enough, and there is none to fail when the channel is already open. And when
  every reply line has at least 3 bytes and both timestamps of every event have at least
  14, no run of the session panics.
\<close>

theorem slicing_in_bounds_iff_long_enough:
  "(parse_stamp d = Inl Panic \<longleftrightarrow> length d < 14)
   \<and> (inbox c = bytes # rest \<and> ReadString bytes = (data, True) \<longrightarrow>
        (svdrp_wait_for_reply c reply = Inl Panic \<longleftrightarrow> length data < 3))
   \<and> (inbox c = bytes # rest \<and> ReadString bytes = (data, False) \<longrightarrow>
        svdrp_wait_for_reply c reply = Inl Fatal)
   \<and> (dir (ChannelCallSign e) = Some ch \<longrightarrow>
        (epg_event F dir st e = Inl Panic \<longleftrightarrow>
           block_switch F ch st e = Inl Panic
           \<or> (\<exists>r. block_switch F ch st e = Inr r)
               \<and> (length (EEStartTime e) < 14 \<or> length (EEStopTime e) < 14)))
   \<and> (replies_long (sconn st) \<longrightarrow> block_switch F ch st e \<noteq> Inl Panic)
   \<and> (dir (ChannelCallSign e) = Some ch \<and> cur_channel st = ChannelCallSign e
        \<and> ChannelCallSign e \<noteq> [] \<longrightarrow>
        (epg_event F dir st e = Inl Panic
           \<longleftrightarrow> length (EEStartTime e) < 14 \<or> length (EEStopTime e) < 14))
   \<and> ((\<forall>bytes \<in> set replies. line_long bytes)
        \<and> (\<forall>e \<in> set evs. 14 \<le> length (EEStartTime e) \<and> 14 \<le> length (EEStopTime e)) \<longrightarrow>
        vdr_epg_load F dir dialled replies evs \<noteq> Inl Panic)"
  using parse_stamp_Panic_iff [of d] wait_Panic_iff [of c bytes rest data reply]
    wait_read_error [of c bytes rest data reply]
    epg_event_Panic_iff [of dir e ch F st]
    no_panic_not_Panic [OF block_switch_no_panic [of st F ch e]]
    epg_event_open_Panic_iff [of dir e ch st F]
    vdr_epg_load_no_panic [of replies evs F dir dialled]
  by blast

theorem slicing_in_bounds_iff_long_enough_witness:
  "parse_stamp ''2013-01-01'' = Inl Panic
   \<and> svdrp_wait_for_reply \<lparr>wire = [], inbox = [[CHR ''!'', LF]]\<rparr> VDR_SC_SERVICE_READY = Inl Panic
   \<and> svdrp_wait_for_reply \<lparr>wire = [], inbox = [''OK'']\<rparr> VDR_SC_SERVICE_READY = Inl Fatal
   \<and> epg_event (\<lambda>s. s) sample_dir sample_closed sample_short = Inl Panic
   \<and> epg_event (\<lambda>s. s) sample_dir sample_open sample_short = Inl Panic
   \<and> vdr_epg_load (\<lambda>s. s) sample_dir True sample_replies_run [sample_event] \<noteq> Inl Panic"
proof -
  note t = slicing_in_bounds_iff_long_enough
    [where d = "''2013-01-01''" and reply = VDR_SC_SERVICE_READY and dir = sample_dir
       and e = sample_short and ch = sample_channel and F = "\<lambda>s. s"
       and replies = sample_replies_run and evs = "[sample_event]" and dialled = True]
  have 1: "length ''2013-01-01'' < 14" by simp
  have 2: "inbox \<lparr>wire = [], inbox = [[CHR ''!'', LF]]\<rparr> = [CHR ''!'', LF] # []"
    "ReadString [CHR ''!'', LF] = ([CHR ''!'', LF], True)" "length [CHR ''!'', LF] < 3"
    by (simp_all add: ReadString_def LF_def)
  have 3: "inbox \<lparr>wire = [], inbox = [''OK'']\<rparr> = ''OK'' # []"
    "ReadString ''OK'' = (''OK'', False)"
    by (simp_all add: ReadString_def LF_def)
  have 4: "sample_dir (ChannelCallSign sample_short) = Some sample_channel"
    "length (EEStartTime sample_short) < 14 \<or> length (EEStopTime sample_short) < 14"
    by (simp_all add: sample_dir_def sample_short_def sample_event_def)
  have 5: "\<exists>r. block_switch (\<lambda>s. s) sample_channel sample_closed sample_short = Inr r"
    by (simp add: block_switch_def sample_closed_def sample_short_def sample_eval)
  have 6: "cur_channel sample_open = ChannelCallSign sample_short"
    "ChannelCallSign sample_short \<noteq> []"
    by (simp_all add: sample_short_def sample_event_def sample_open_def)
  have 7: "(\<forall>bytes \<in> set sample_replies_run. line_long bytes)
      \<and> (\<forall>e \<in> set [sample_event]. 14 \<le> length (EEStartTime e) \<and> 14 \<le> length (EEStopTime e))"
    by (simp add: sample_replies_run_def sample_event_def line_long_def ReadString_def
        CRLF_def LF_def)
  from t [where c = "\<lparr>wire = [], inbox = [[CHR ''!'', LF]]\<rparr>" and bytes = "[CHR ''!'', LF]"
      and rest = "[]" and data = "[CHR ''!'', LF]"] 2
  have a: "svdrp_wait_for_reply \<lparr>wire = [], inbox = [[CHR ''!'', LF]]\<rparr> VDR_SC_SERVICE_READY
             = Inl Panic"
    by blast
  from t [where c = "\<lparr>wire = [], inbox = [''OK'']\<rparr>" and bytes = "''OK''"
      and rest = "[]" and data = "''OK''"] 3
  have b: "svdrp_wait_for_reply \<lparr>wire = [], inbox = [''OK'']\<rparr> VDR_SC_SERVICE_READY = Inl Fatal"
    by blast
  from t [where st = sample_closed] 4 5
  have c: "epg_event (\<lambda>s. s) sample_dir sample_closed sample_short = Inl Panic"
    by blast
  from t [where st = sample_open] 4 6
  have d: "epg_event (\<lambda>s. s) sample_dir sample_open sample_short = Inl Panic"
    by blast
  from t 1 7 have e: "parse_stamp ''2013-01-01'' = Inl Panic"
    and f: "vdr_epg_load (\<lambda>s. s) sample_dir True sample_replies_run [sample_event] \<noteq> Inl Panic"
    by blast+
  from a b c d e f show ?thesis
    by blast
qed

section \<open>Channel blocks\<close>

text \<open>
  C4, as the program has it, for call signs other than the empty string (which the
  session uses to mean that no block is open). Two consecutive accepted events with the
  same non-empty call sign share one block: the second one writes its own lines and
  nothing else, and over the two events the session performs one open handshake
  (\<open>PUTE\<close> and its reply 354) when the channel was not open before the first, none when
  it was; from a session with nothing open the traffic is the handshake, one write with
  the channel header and the first event, one write with the second event. And when a
  block is open (\<open>cur_channel\<close> is not empty) and an accepted event has another call
  sign, the traffic of the iteration is the close sequence (\<open>c\<close>, then \<open>.\<close> and its reply
  250), then the open handshake, then the header and the event.
\<close>

theorem session_ordering:
  "(dir (ChannelCallSign e1) = Some ch \<and> ChannelCallSign e1 \<noteq> []
      \<and> ChannelCallSign e2 = ChannelCallSign e1
      \<and> epg_event F dir st e1 = Inr st1 \<and> epg_event F dir st1 e2 = Inr st2
    \<longrightarrow> (\<exists>dts dte. wire (sconn st2)
                      = wire (sconn st1) @ [Tx (F (F (event_lines e2 dts dte @ CRLF)))])
        \<and> opens (wire (sconn st2))
            = opens (wire (sconn st)) + (if cur_channel st = ChannelCallSign e1 then 0 else 1)
        \<and> (cur_channel st = [] \<longrightarrow>
             (\<exists>dts1 dte1 dts2 dte2. wire (sconn st2) = wire (sconn st)
                @ [Tx (F (''PUTE'' @ CRLF)), Rx VDR_SC_EPG_START_SENDING,
                   Tx (F (F (channel_header ch (ChannelCallSign e1)
                             @ event_lines e1 dts1 dte1 @ CRLF))),
                   Tx (F (F (event_lines e2 dts2 dte2 @ CRLF)))])))
   \<and> (dir (ChannelCallSign e) = Some ch' \<and> cur_channel st \<noteq> []
      \<and> cur_channel st \<noteq> ChannelCallSign e \<and> epg_event F dir st e = Inr st'
    \<longrightarrow> (\<exists>dts dte. wire (sconn st') = wire (sconn st)
             @ [Tx (F (F (''c'' @ CRLF))), Tx (F (''.'' @ CRLF)), Rx VDR_SC_ACTION_OK,
                Tx (F (''PUTE'' @ CRLF)), Rx VDR_SC_EPG_START_SENDING,
                Tx (F (F (channel_header ch' (ChannelCallSign e)
                          @ event_lines e dts dte @ CRLF)))]))"
proof (intro conjI impI)
  assume h: "dir (ChannelCallSign e) = Some ch' \<and> cur_channel st \<noteq> []
      \<and> cur_channel st \<noteq> ChannelCallSign e \<and> epg_event F dir st e = Inr st'"
  then show "\<exists>dts dte. wire (sconn st') = wire (sconn st)
             @ [Tx (F (F (''c'' @ CRLF))), Tx (F (''.'' @ CRLF)), Rx VDR_SC_ACTION_OK,
                Tx (F (''PUTE'' @ CRLF)), Rx VDR_SC_EPG_START_SENDING,
                Tx (F (F (channel_header ch' (ChannelCallSign e)
                          @ event_lines e dts dte @ CRLF)))]"
    using epg_event_switch [of dir e ch' st F st'] by blast
next
  assume h: "dir (ChannelCallSign e1) = Some ch \<and> ChannelCallSign e1 \<noteq> []
      \<and> ChannelCallSign e2 = ChannelCallSign e1
      \<and> epg_event F dir st e1 = Inr st1 \<and> epg_event F dir st1 e2 = Inr st2"
  have cur1: "cur_channel st1 = ChannelCallSign e1"
    using h epg_event_same [of dir e1 ch st F st1] epg_event_first [of dir e1 ch st F st1]
      epg_event_switch [of dir e1 ch st F st1]
    by (cases "cur_channel st = ChannelCallSign e1"; cases "cur_channel st = []") auto
  from h cur1 epg_event_same [of dir e2 ch st1 F st2]
  obtain dts2 dte2 where
    w2: "wire (sconn st2) = wire (sconn st1) @ [Tx (F (F (event_lines e2 dts2 dte2 @ CRLF)))]"
    by auto
  then show "\<exists>dts dte. wire (sconn st2)
                      = wire (sconn st1) @ [Tx (F (F (event_lines e2 dts dte @ CRLF)))]"
    by blast
  have ne: "VDR_SC_ACTION_OK \<noteq> VDR_SC_EPG_START_SENDING"
    by (simp add: VDR_SC_ACTION_OK_def VDR_SC_EPG_START_SENDING_def)
  show "opens (wire (sconn st2))
            = opens (wire (sconn st)) + (if cur_channel st = ChannelCallSign e1 then 0 else 1)"
  proof (cases "cur_channel st = ChannelCallSign e1")
    case True
    with h epg_event_same [of dir e1 ch st F st1] w2 show ?thesis
      by auto
  next
    case False
    show ?thesis
    proof (cases "cur_channel st = []")
      case True
      with h False epg_event_first [of dir e1 ch st F st1] w2 show ?thesis
        by auto
    next
      case nonempty: False
      with h False epg_event_switch [of dir e1 ch st F st1] w2 ne show ?thesis
        by auto
    qed
  qed
  {
    assume c: "cur_channel st = []"
    with h epg_event_first [of dir e1 ch st F st1] w2
    show "\<exists>dts1 dte1 dts2 dte2. wire (sconn st2) = wire (sconn st)
                @ [Tx (F (''PUTE'' @ CRLF)), Rx VDR_SC_EPG_START_SENDING,
                   Tx (F (F (channel_header ch (ChannelCallSign e1)
                             @ event_lines e1 dts1 dte1 @ CRLF))),
                   Tx (F (F (event_lines e2 dts2 dte2 @ CRLF)))]"
      by auto
  }
qed

theorem session_ordering_witness:
  "epg_event (\<lambda>s. s) sample_dir sample_closed sample_event = Inr sample_opened
   \<and> epg_event (\<lambda>s. s) sample_dir sample_opened sample_event = Inr sample_opened2
   \<and> opens (wire (sconn sample_opened2)) = 1
   \<and> epg_event (\<lambda>s. s) sample_dir sample_other sample_event = Inr sample_switched
   \<and> (\<exists>dts dte. wire (sconn sample_switched)
         = [Tx (''c'' @ CRLF), Tx (''.'' @ CRLF), Rx VDR_SC_ACTION_OK,
            Tx (''PUTE'' @ CRLF), Rx VDR_SC_EPG_START_SENDING,
            Tx (channel_header sample_channel ''WCVB'' @ event_lines sample_event dts dte @ CRLF)])"
proof -
  have d: "sample_dir (ChannelCallSign sample_event) = Some sample_channel"
    "ChannelCallSign sample_event = ''WCVB''"
    by (simp_all add: sample_dir_def sample_event_def)
  have h1: "sample_dir (ChannelCallSign sample_event) = Some sample_channel
      \<and> ChannelCallSign sample_event \<noteq> []
      \<and> ChannelCallSign sample_event = ChannelCallSign sample_event
      \<and> epg_event (\<lambda>s. s) sample_dir sample_closed sample_event = Inr sample_opened
      \<and> epg_event (\<lambda>s. s) sample_dir sample_opened sample_event = Inr sample_opened2"
    using d sample_step_open sample_step_again by simp
  from session_ordering
    [where dir = sample_dir and ?e1.0 = sample_event and ?e2.0 = sample_event
       and ch = sample_channel and F = "\<lambda>s. s" and st = sample_closed
       and ?st1.0 = sample_opened and ?st2.0 = sample_opened2] h1
  have "opens (wire (sconn sample_opened2))
          = opens (wire (sconn sample_closed))
            + (if cur_channel sample_closed = ChannelCallSign sample_event then 0 else 1)"
    by blast
  then have o: "opens (wire (sconn sample_opened2)) = 1"
    by (simp add: sample_closed_def d)
  have h2: "sample_dir (ChannelCallSign sample_event) = Some sample_channel
      \<and> cur_channel sample_other \<noteq> []
      \<and> cur_channel sample_other \<noteq> ChannelCallSign sample_event
      \<and> epg_event (\<lambda>s. s) sample_dir sample_other sample_event = Inr sample_switched"
    using d sample_step_switch by (simp add: sample_other_def)
  from session_ordering
    [where dir = sample_dir and e = sample_event and ch' = sample_channel and F = "\<lambda>s. s"
       and st = sample_other and st' = sample_switched] h2
  have "\<exists>dts dte. wire (sconn sample_switched) = wire (sconn sample_other)
             @ [Tx (''c'' @ CRLF), Tx (''.'' @ CRLF), Rx VDR_SC_ACTION_OK,
                Tx (''PUTE'' @ CRLF), Rx VDR_SC_EPG_START_SENDING,
                Tx (channel_header sample_channel (ChannelCallSign sample_event)
                          @ event_lines sample_event dts dte @ CRLF)]"
    by blast
  then have s: "\<exists>dts dte. wire (sconn sample_switched)
         = [Tx (''c'' @ CRLF), Tx (''.'' @ CRLF), Rx VDR_SC_ACTION_OK,
            Tx (''PUTE'' @ CRLF), Rx VDR_SC_EPG_START_SENDING,
            Tx (channel_header sample_channel ''WCVB'' @ event_lines sample_event dts dte @ CRLF)]"
    by (simp add: sample_other_def d)
  from sample_step_open sample_step_again o sample_step_switch s show ?thesis
    by blast
qed

theorem session_ordering_counterexample:
  "anon_dir (ChannelCallSign anon_event) = Some sample_channel
   \<and> ChannelCallSign anon_event = []
   \<and> map_sum id (\<lambda>s. wire (sconn s))
        (epg_loop (\<lambda>s. s) anon_dir anon_start [anon_event, anon_event, sample_event])
      = Inr [Tx (''PUTE'' @ CRLF), Rx 354,
             Tx (channel_header sample_channel []
                 @ event_lines anon_event 1356998400 1357000200 @ CRLF),
             Tx (''PUTE'' @ CRLF), Rx 354,
             Tx (channel_header sample_channel []
                 @ event_lines anon_event 1356998400 1357000200 @ CRLF),
             Tx (''PUTE'' @ CRLF), Rx 354,
             Tx (channel_header sample_channel ''WCVB''
                 @ event_lines sample_event 1356998400 1357000200 @ CRLF)]"
  by (simp add: sample_eval anon_dir_def anon_event_def anon_start_def)

end
